theory Spec2Isabelle
  imports Complex_Main
begin

section \<open>The rendered tree and its queries\<close>

text \<open>
  The effect of \<open>Portfolio\<close> in \<open>src/app/page.tsx\<close> reads the rendered page through
  nine refs and through \<open>querySelector\<close>/\<open>querySelectorAll\<close>. An element is a node
  with an identity, a tag, its class names, the text it holds itself and its child
  elements. The whole document is a node whose children are the top elements.
\<close>

datatype node =
  Node (nid: nat) (tag: string) (class_list: "string list") (own_text: string)
    (kids: "node list")

type_synonym elem = nat

text \<open>
  The descendants of a node in document order, each with the flag that it is the first
  child of its parent (what the selector \<open>div:first-child\<close> asks for).
\<close>

fun marked :: "node \<Rightarrow> (bool \<times> node) list" where
  "marked (Node i t c x ks) =
     (case ks of
        [] \<Rightarrow> []
      | k # rest \<Rightarrow>
          ((True, k) # marked k) @ concat (map (\<lambda>k'. (False, k') # marked k') rest))"

text \<open>The two selector shapes the effect uses: \<open>.name\<close> and \<open>div:first-child\<close>.\<close>

datatype selector = ByClass string | DivFirstChild

fun matches :: "selector \<Rightarrow> bool \<times> node \<Rightarrow> bool" where
  "matches (ByClass c) (first, n) = (c \<in> set (class_list n))"
| "matches DivFirstChild (first, n) = (tag n = ''div'' \<and> first)"

definition querySelectorAll :: "node \<Rightarrow> selector \<Rightarrow> node list" where
  "querySelectorAll r sel = map snd (filter (matches sel) (marked r))"

definition querySelector :: "node \<Rightarrow> selector \<Rightarrow> node option" where
  "querySelector r sel =
     (case querySelectorAll r sel of [] \<Rightarrow> None | n # rest \<Rightarrow> Some n)"

fun textContent :: "node \<Rightarrow> string" where
  "textContent (Node i t c x ks) = x @ concat (map textContent ks)"

text \<open>
  A ref's \<open>current\<close> is an element or \<open>null\<close>. Reading a property of \<open>null\<close> or
  calling a method on it throws a \<open>TypeError\<close>, which would abort the effect.
\<close>

datatype error = TypeError

definition then_res :: "error + 'a \<Rightarrow> ('a \<Rightarrow> error + 'b) \<Rightarrow> error + 'b" where
  "then_res m f = (case m of Inl e \<Rightarrow> Inl e | Inr x \<Rightarrow> f x)"

definition querySelectorAll_on :: "node option \<Rightarrow> selector \<Rightarrow> error + node list" where
  "querySelectorAll_on r sel =
     (case r of None \<Rightarrow> Inl TypeError | Some n \<Rightarrow> Inr (querySelectorAll n sel))"

definition querySelector_on :: "node option \<Rightarrow> selector \<Rightarrow> error + node option" where
  "querySelector_on r sel =
     (case r of None \<Rightarrow> Inl TypeError | Some n \<Rightarrow> Inr (querySelector n sel))"

definition children_on :: "node option \<Rightarrow> error + node list" where
  "children_on r = (case r of None \<Rightarrow> Inl TypeError | Some n \<Rightarrow> Inr (kids n))"

definition textContent_on :: "node option \<Rightarrow> error + string" where
  "textContent_on r = (case r of None \<Rightarrow> Inl TypeError | Some n \<Rightarrow> Inr (textContent n))"

record page =
  document :: node
  heroRef :: "node option"
  titleRef :: "node option"
  subtitleRef :: "node option"
  buttonsRef :: "node option"
  servicesRef :: "node option"
  projectsRef :: "node option"
  techRef :: "node option"
  aboutRef :: "node option"
  contactRef :: "node option"

section \<open>The calls into the animation library\<close>

text \<open>
  The animation library (\<open>gsap\<close>, with its \<open>ScrollTrigger\<close> plugin) is imported by the
  page; it is not part of the repository. The effect only calls it, so the effect is
  modelled as the ordered list of calls it makes, each with the arguments the source
  writes. A vars object carries the animated properties; the options the library reads
  from the same object (\<open>duration\<close>, \<open>ease\<close>, \<open>delay\<close>, \<open>stagger\<close>, \<open>repeat\<close>, \<open>yoyo\<close>,
  \<open>snap\<close>, \<open>scrollTrigger\<close>) are fields of the record of the call.
\<close>

datatype val = Num real | Str string

type_synonym vars = "(string \<times> val) list"

text \<open>
  \<open>stagger: 0.2\<close> is a number, the time between the starts of neighbouring targets;
  \<open>stagger: {amount: a, from: f, grid: g, ease: e}\<close> is an object, \<open>a\<close> being the total
  time split among the targets.
\<close>

datatype pattern = FromStart | FromCenter | FromRandom

datatype stagger =
  Each real
| Amount real pattern "(nat \<times> nat) option" "string option"

text \<open>
  \<open>toggleActions\<close> is four words, the action on entering, on leaving, on entering
  back and on leaving back; the source only writes \<open>play\<close>, \<open>none\<close> and \<open>reverse\<close>.
\<close>

datatype action = Play | NoAction | Reverse

record scroll_trigger =
  trigger :: "elem option"
  start :: string
  end_at :: "string option"
  toggleActions :: "action \<times> action \<times> action \<times> action"

datatype kind = SetK | ToK | FromToK

datatype placement = Global | OnTimeline "string option"

record tween =
  kind :: kind
  targets :: "elem list"
  from_vars :: vars
  to_vars :: vars
  duration :: real
  ease :: "string option"
  delay :: real
  stagger :: "stagger option"
  repeat :: int
  yoyo :: bool
  snap :: "(string \<times> real) list"
  scrollTrigger :: "scroll_trigger option"
  placement :: placement

text \<open>
  A target argument may be \<open>null\<close> or an empty list; the library then animates nothing.
  A tween lasts half a second unless it says otherwise (every tween of the source does),
  and \<open>gsap.set\<close> is a tween of no duration.
\<close>

definition target_of :: "node option \<Rightarrow> elem list" where
  "target_of r = (case r of None \<Rightarrow> [] | Some n \<Rightarrow> [nid n])"

definition gsap_to :: "elem list \<Rightarrow> vars \<Rightarrow> tween" where
  "gsap_to ts v =
     \<lparr>kind = ToK, targets = ts, from_vars = [], to_vars = v, duration = 0.5,
      ease = None, delay = 0, stagger = None, repeat = 0, yoyo = False, snap = [],
      scrollTrigger = None, placement = Global\<rparr>"

definition gsap_fromTo :: "elem list \<Rightarrow> vars \<Rightarrow> vars \<Rightarrow> tween" where
  "gsap_fromTo ts f v = (gsap_to ts v)\<lparr>kind := FromToK, from_vars := f\<rparr>"

definition gsap_set :: "elem list \<Rightarrow> vars \<Rightarrow> tween" where
  "gsap_set ts v = (gsap_to ts v)\<lparr>kind := SetK, duration := 0\<rparr>"

definition tl_fromTo :: "elem list \<Rightarrow> vars \<Rightarrow> vars \<Rightarrow> string option \<Rightarrow> tween" where
  "tl_fromTo ts f v pos = (gsap_fromTo ts f v)\<lparr>placement := OnTimeline pos\<rparr>"

text \<open>
  An event listener holds the tweens its handler starts when the event arrives; a
  standalone \<open>ScrollTrigger.create\<close> holds the tweens its \<open>onEnter\<close> callback starts.
\<close>

record listener =
  l_target :: elem
  l_event :: string
  l_handler :: "tween list"

record observer =
  o_trigger :: "elem option"
  o_start :: string
  o_onEnter :: "tween list"

datatype call = Animate tween | Observe observer | Listen listener

definition play_reverse :: "elem option \<Rightarrow> string \<Rightarrow> string option \<Rightarrow> scroll_trigger" where
  "play_reverse t s e =
     \<lparr>trigger = t, start = s, end_at = e,
      toggleActions = (Play, NoAction, NoAction, Reverse)\<rparr>"

text \<open>
  \<open>Math.random()\<close> is called once for every technology badge and once for every
  social button; the numbers drawn are a parameter of the model.
\<close>

record env =
  random_badge :: "nat \<Rightarrow> real"
  random_social :: "nat \<Rightarrow> real"

section \<open>The body of the effect\<close>

definition andthen :: "error + 'a list \<Rightarrow> error + 'a list \<Rightarrow> error + 'a list" where
  "andthen a b = then_res a (\<lambda>xs. then_res b (\<lambda>ys. Inr (xs @ ys)))"

fun for_each :: "('a \<Rightarrow> error + 'b list) \<Rightarrow> 'a list \<Rightarrow> error + 'b list" where
  "for_each f [] = Inr []"
| "for_each f (x # xs) = andthen (f x) (for_each f xs)"

subsection \<open>Hero section (lines 153-201)\<close>

text \<open>
  \<open>const tl = gsap.timeline()\<close> animates nothing by itself; the three \<open>tl.fromTo\<close> are
  tweens placed on it, the second and third with a position (\<open>"-=0.6"\<close>, \<open>"-=0.4"\<close>).
\<close>

definition hero_title :: "page \<Rightarrow> error + call list" where
  "hero_title p =
     (if titleRef p \<noteq> None then
        Inr [Animate (gsap_set (target_of (titleRef p)) [(''opacity'', Num 1)]),
             Animate ((tl_fromTo (target_of (titleRef p))
                 [(''opacity'', Num 0), (''y'', Num 100), (''scale'', Num 0.8)]
                 [(''opacity'', Num 1), (''y'', Num 0), (''scale'', Num 1)] None)
               \<lparr>duration := 1.2, ease := Some ''power3.out''\<rparr>)]
      else Inr [])"

definition hero_subtitle :: "page \<Rightarrow> error + call list" where
  "hero_subtitle p =
     (if subtitleRef p \<noteq> None then
        Inr [Animate ((tl_fromTo (target_of (subtitleRef p))
                 [(''opacity'', Num 0), (''y'', Num 50)]
                 [(''opacity'', Num 1), (''y'', Num 0)] (Some ''-=0.6''))
               \<lparr>duration := 0.8, ease := Some ''power2.out''\<rparr>)]
      else Inr [])"

definition hero_buttons :: "page \<Rightarrow> error + call list" where
  "hero_buttons p =
     (if buttonsRef p \<noteq> None then
        then_res (children_on (buttonsRef p)) (\<lambda>children.
          Inr [Animate ((tl_fromTo (map nid children)
                 [(''opacity'', Num 0), (''y'', Num 30), (''scale'', Num 0.9)]
                 [(''opacity'', Num 1), (''y'', Num 0), (''scale'', Num 1)] (Some ''-=0.4''))
               \<lparr>duration := 0.6, stagger := Some (Each 0.2),
                ease := Some ''back.out(1.7)''\<rparr>)])
      else Inr [])"

subsection \<open>Services section (lines 203-230)\<close>

definition services :: "page \<Rightarrow> error + call list" where
  "services p =
     (if servicesRef p \<noteq> None then
        then_res (querySelectorAll_on (servicesRef p) (ByClass ''service-card''))
          (\<lambda>serviceCards.
          Inr [Animate ((gsap_fromTo (map nid serviceCards)
                 [(''opacity'', Num 0), (''y'', Num 80), (''rotationX'', Num 45),
                  (''transformPerspective'', Num 1000)]
                 [(''opacity'', Num 1), (''y'', Num 0), (''rotationX'', Num 0)])
               \<lparr>duration := 1, stagger := Some (Each 0.2), ease := Some ''power3.out'',
                scrollTrigger := Some (play_reverse (map_option nid (servicesRef p))
                    ''top 80%'' (Some ''bottom 20%''))\<rparr>)])
      else Inr [])"

subsection \<open>Projects section (lines 232-258)\<close>

definition project_card :: "nat \<times> node \<Rightarrow> error + call list" where
  "project_card = (\<lambda>(index, card).
     Inr [Animate ((gsap_fromTo [nid card]
            [(''opacity'', Num 0),
             (''x'', Num (if index mod 2 = 0 then - 100 else 100)),
             (''rotation'', Num (if index mod 2 = 0 then - 5 else 5))]
            [(''opacity'', Num 1), (''x'', Num 0), (''rotation'', Num 0)])
          \<lparr>duration := 1, ease := Some ''power3.out'',
           scrollTrigger := Some (play_reverse (Some (nid card)) ''top 85%'' None)\<rparr>)])"

definition projects :: "page \<Rightarrow> error + call list" where
  "projects p =
     (if projectsRef p \<noteq> None then
        then_res (querySelectorAll_on (projectsRef p) (ByClass ''project-card''))
          (\<lambda>projectCards. for_each project_card (enumerate 0 projectCards))
      else Inr [])"

subsection \<open>Technologies section (lines 260-389)\<close>

definition badge_enter :: "node \<Rightarrow> tween" where
  "badge_enter badge =
     (gsap_to [nid badge]
        [(''scale'', Num 1.1), (''y'', Num (- 8)),
         (''boxShadow'', Str ''0 10px 25px rgba(0, 255, 255, 0.3)'')])
     \<lparr>duration := 0.3, ease := Some ''power2.out''\<rparr>"

definition badge_leave :: "node \<Rightarrow> tween" where
  "badge_leave badge =
     (gsap_to [nid badge]
        [(''scale'', Num 1), (''y'', Num 0),
         (''boxShadow'', Str ''0 0 0 rgba(0, 255, 255, 0)'')])
     \<lparr>duration := 0.3, ease := Some ''power2.out''\<rparr>"

definition tech_badge :: "env \<Rightarrow> nat \<times> node \<Rightarrow> error + call list" where
  "tech_badge ev = (\<lambda>(index, badge).
     Inr [Animate ((gsap_to [nid badge] [(''scale'', Num 1.02)])
            \<lparr>duration := 2 + random_badge ev index * 1, repeat := - 1, yoyo := True,
             ease := Some ''sine.inOut'', delay := real index * 0.1\<rparr>),
          Listen \<lparr>l_target = nid badge, l_event = ''mouseenter'',
                  l_handler = [badge_enter badge]\<rparr>,
          Listen \<lparr>l_target = nid badge, l_event = ''mouseleave'',
                  l_handler = [badge_leave badge]\<rparr>])"

definition counter :: "node option \<Rightarrow> node \<Rightarrow> real \<Rightarrow> real \<Rightarrow> error + call list" where
  "counter number stat dur del =
     (if number \<noteq> None then
        then_res (textContent_on number) (\<lambda>finalValue.
          Inr [Animate ((gsap_fromTo (target_of number)
                 [(''textContent'', Str ''0'')] [(''textContent'', Str finalValue)])
               \<lparr>duration := dur, delay := del, ease := Some ''power2.out'',
                snap := [(''textContent'', 1)],
                scrollTrigger := Some (play_reverse (Some (nid stat)) ''top 85%'' None)\<rparr>)])
      else Inr [])"

definition tech_stat :: "nat \<times> node \<Rightarrow> error + call list" where
  "tech_stat = (\<lambda>(index, stat).
     andthen
       (Inr [Animate ((gsap_fromTo [nid stat]
               [(''opacity'', Num 0), (''y'', Num 20)]
               [(''opacity'', Num 1), (''y'', Num 0)])
             \<lparr>duration := 0.6, delay := real index * 0.2 + 0.5,
              ease := Some ''power2.out'',
              scrollTrigger := Some (play_reverse (Some (nid stat)) ''top 85%'' None)\<rparr>)])
       (counter (querySelector stat DivFirstChild) stat 1.5 (real index * 0.2 + 0.8)))"

definition wave :: "node list \<Rightarrow> tween" where
  "wave techBadges =
     (gsap_to (map nid techBadges) [(''y'', Num (- 5))])
     \<lparr>duration := 0.4, stagger := Some (Amount 0.8 FromStart None None),
      ease := Some ''power2.out'', yoyo := True, repeat := 1\<rparr>"

definition tech :: "env \<Rightarrow> page \<Rightarrow> error + call list" where
  "tech ev p =
     (if techRef p \<noteq> None then
        then_res (querySelectorAll_on (techRef p) (ByClass ''tech-badge'')) (\<lambda>techBadges.
          andthen
            (Inr [Animate ((gsap_fromTo (map nid techBadges)
                    [(''opacity'', Num 0), (''y'', Num 30), (''scale'', Num 0.8)]
                    [(''opacity'', Num 1), (''y'', Num 0), (''scale'', Num 1)])
                  \<lparr>duration := 0.6,
                   stagger := Some (Amount 1.2 FromRandom None (Some ''power2.out'')),
                   ease := Some ''back.out(1.7)'',
                   scrollTrigger := Some (play_reverse (map_option nid (techRef p))
                       ''top 75%'' None)\<rparr>)])
         (andthen (for_each (tech_badge ev) (enumerate 0 techBadges))
         (andthen
            (Inr [Observe \<lparr>o_trigger = map_option nid (techRef p), o_start = ''top 60%'',
                           o_onEnter = [wave techBadges]\<rparr>])
            (then_res (querySelectorAll_on (techRef p) (ByClass ''tech-stat''))
               (\<lambda>techStats. for_each tech_stat (enumerate 0 techStats))))))
      else Inr [])"

subsection \<open>About section (lines 391-492)\<close>

definition icon_enter :: "node \<Rightarrow> tween" where
  "icon_enter icon =
     (gsap_to [nid icon] [(''scale'', Num 1.1), (''y'', Num (- 5))])
     \<lparr>duration := 0.3, ease := Some ''power2.out''\<rparr>"

definition icon_leave :: "node \<Rightarrow> tween" where
  "icon_leave icon =
     (gsap_to [nid icon] [(''scale'', Num 1), (''y'', Num 0)])
     \<lparr>duration := 0.3, ease := Some ''power2.out''\<rparr>"

definition about_icon :: "nat \<times> node \<Rightarrow> error + call list" where
  "about_icon = (\<lambda>(index, icon).
     Inr [Listen \<lparr>l_target = nid icon, l_event = ''mouseenter'',
                  l_handler = [icon_enter icon]\<rparr>,
          Listen \<lparr>l_target = nid icon, l_event = ''mouseleave'',
                  l_handler = [icon_leave icon]\<rparr>])"

definition about_stat :: "nat \<times> node \<Rightarrow> error + call list" where
  "about_stat = (\<lambda>(index, stat).
     andthen
       (Inr [Animate ((gsap_fromTo [nid stat]
               [(''opacity'', Num 0), (''y'', Num 30)]
               [(''opacity'', Num 1), (''y'', Num 0)])
             \<lparr>duration := 0.8, delay := real index * 0.2, ease := Some ''power2.out'',
              scrollTrigger := Some (play_reverse (Some (nid stat)) ''top 85%'' None)\<rparr>)])
       (counter (querySelector stat (ByClass ''stat-number'')) stat 2
          (real index * 0.2 + 0.5)))"

definition about :: "page \<Rightarrow> error + call list" where
  "about p =
     (if aboutRef p \<noteq> None then
        then_res (querySelector_on (aboutRef p) (ByClass ''icon-grid'')) (\<lambda>iconGrid.
        then_res (querySelectorAll_on (aboutRef p) (ByClass ''tech-icon'')) (\<lambda>icons.
        then_res (querySelectorAll_on (aboutRef p) (ByClass ''stat-item'')) (\<lambda>stats.
          andthen
            (Inr [Animate ((gsap_fromTo (map nid icons)
                    [(''opacity'', Num 0), (''scale'', Num 0.5), (''y'', Num 30)]
                    [(''opacity'', Num 1), (''scale'', Num 1), (''y'', Num 0)])
                  \<lparr>duration := 0.8,
                   stagger := Some (Amount 1 FromCenter (Some (3, 2)) None),
                   ease := Some ''back.out(1.7)'',
                   scrollTrigger := Some (play_reverse (map_option nid (aboutRef p))
                       ''top 70%'' None)\<rparr>)])
         (andthen (for_each about_icon (enumerate 0 icons))
                  (for_each about_stat (enumerate 0 stats))))))
      else Inr [])"

subsection \<open>Contact section (lines 494-659)\<close>

definition social_enter :: "node \<Rightarrow> tween" where
  "social_enter btn =
     (gsap_to [nid btn]
        [(''scale'', Num 1.2), (''rotationY'', Num 180), (''rotationX'', Num 10),
         (''z'', Num 20)])
     \<lparr>duration := 0.6, ease := Some ''back.out(1.7)''\<rparr>"

definition social_leave :: "node \<Rightarrow> tween" where
  "social_leave btn =
     (gsap_to [nid btn]
        [(''scale'', Num 1), (''rotationY'', Num 0), (''rotationX'', Num 0),
         (''z'', Num 0)])
     \<lparr>duration := 0.4, ease := Some ''power2.out''\<rparr>"

definition social_button :: "env \<Rightarrow> nat \<times> node \<Rightarrow> error + call list" where
  "social_button ev = (\<lambda>(index, btn).
     Inr [Animate (gsap_set [nid btn]
            [(''transformPerspective'', Num 1000), (''transformStyle'', Str ''preserve-3d'')]),
          Animate ((gsap_to [nid btn]
              [(''rotationY'', Num (sin (real index) * 5)),
               (''rotationX'', Num (cos (real index) * 3))])
            \<lparr>duration := 3 + random_social ev index, repeat := - 1, yoyo := True,
             ease := Some ''sine.inOut'', delay := real index * 0.2\<rparr>),
          Listen \<lparr>l_target = nid btn, l_event = ''mouseenter'',
                  l_handler = [social_enter btn]\<rparr>,
          Listen \<lparr>l_target = nid btn, l_event = ''mouseleave'',
                  l_handler = [social_leave btn]\<rparr>])"

definition input_focus :: "node \<Rightarrow> tween" where
  "input_focus input =
     (gsap_to [nid input]
        [(''scale'', Num 1.02), (''rotationX'', Num (- 2)), (''z'', Num 5)])
     \<lparr>duration := 0.3, ease := Some ''power2.out''\<rparr>"

definition input_blur :: "node \<Rightarrow> tween" where
  "input_blur input =
     (gsap_to [nid input]
        [(''scale'', Num 1), (''rotationX'', Num 0), (''z'', Num 0)])
     \<lparr>duration := 0.3, ease := Some ''power2.out''\<rparr>"

definition form_input :: "node \<Rightarrow> error + call list" where
  "form_input input =
     Inr [Listen \<lparr>l_target = nid input, l_event = ''focus'',
                  l_handler = [input_focus input]\<rparr>,
          Listen \<lparr>l_target = nid input, l_event = ''blur'',
                  l_handler = [input_blur input]\<rparr>]"

definition contact_entrances ::
  "page \<Rightarrow> node option \<Rightarrow> node option \<Rightarrow> node list \<Rightarrow> node list \<Rightarrow> call list" where
  "contact_entrances p contactInfo contactForm contactItems formInputs =
     [Animate ((gsap_fromTo (target_of contactInfo)
          [(''opacity'', Num 0), (''rotationY'', Num (- 90)), (''x'', Num (- 100)),
           (''transformPerspective'', Num 1000)]
          [(''opacity'', Num 1), (''rotationY'', Num 0), (''x'', Num 0)])
        \<lparr>duration := 1.2, ease := Some ''power3.out'',
         scrollTrigger := Some (play_reverse (map_option nid (contactRef p))
             ''top 75%'' None)\<rparr>),
      Animate ((gsap_fromTo (target_of contactForm)
          [(''opacity'', Num 0), (''rotationY'', Num 90), (''x'', Num 100),
           (''transformPerspective'', Num 1000)]
          [(''opacity'', Num 1), (''rotationY'', Num 0), (''x'', Num 0)])
        \<lparr>duration := 1.2, ease := Some ''power3.out'',
         scrollTrigger := Some (play_reverse (map_option nid (contactRef p))
             ''top 75%'' None)\<rparr>),
      Animate ((gsap_fromTo (map nid contactItems)
          [(''opacity'', Num 0), (''rotationX'', Num 45), (''y'', Num 30),
           (''transformPerspective'', Num 1000)]
          [(''opacity'', Num 1), (''rotationX'', Num 0), (''y'', Num 0)])
        \<lparr>duration := 0.8, stagger := Some (Each 0.2), ease := Some ''back.out(1.7)'',
         scrollTrigger := Some (play_reverse (map_option nid contactInfo)
             ''top 80%'' None)\<rparr>),
      Animate ((gsap_fromTo (map nid formInputs)
          [(''opacity'', Num 0), (''rotationX'', Num 90), (''y'', Num 20),
           (''transformPerspective'', Num 1000)]
          [(''opacity'', Num 1), (''rotationX'', Num 0), (''y'', Num 0)])
        \<lparr>duration := 0.6, stagger := Some (Each 0.1), ease := Some ''power2.out'',
         scrollTrigger := Some (play_reverse (map_option nid contactForm)
             ''top 80%'' None)\<rparr>)]"

definition contact :: "env \<Rightarrow> page \<Rightarrow> error + call list" where
  "contact ev p =
     (if contactRef p \<noteq> None then
        then_res (querySelector_on (contactRef p) (ByClass ''contact-info'')) (\<lambda>contactInfo.
        then_res (querySelector_on (contactRef p) (ByClass ''contact-form'')) (\<lambda>contactForm.
        then_res (querySelectorAll_on (contactRef p) (ByClass ''contact-item''))
          (\<lambda>contactItems.
        then_res (querySelectorAll_on (contactRef p) (ByClass ''form-input'')) (\<lambda>formInputs.
        then_res (querySelectorAll_on (contactRef p) (ByClass ''social-btn''))
          (\<lambda>socialButtons.
          andthen
            (Inr (contact_entrances p contactInfo contactForm contactItems formInputs))
         (andthen (for_each (social_button ev) (enumerate 0 socialButtons))
                  (for_each form_input formInputs)))))))
      else Inr [])"

subsection \<open>Hover animations of the service cards (lines 661-697)\<close>

definition card_enter :: "node \<Rightarrow> node option \<Rightarrow> tween list" where
  "card_enter the_card icon =
     [(gsap_to [nid the_card] [(''scale'', Num 1.05), (''y'', Num (- 10)), (''rotationY'', Num 5)])
        \<lparr>duration := 0.3, ease := Some ''power2.out''\<rparr>,
      (gsap_to (target_of icon) [(''rotation'', Num 360), (''scale'', Num 1.2)])
        \<lparr>duration := 0.6, ease := Some ''back.out(1.7)''\<rparr>]"

definition card_leave :: "node \<Rightarrow> node option \<Rightarrow> tween list" where
  "card_leave the_card icon =
     [(gsap_to [nid the_card] [(''scale'', Num 1), (''y'', Num 0), (''rotationY'', Num 0)])
        \<lparr>duration := 0.3, ease := Some ''power2.out''\<rparr>,
      (gsap_to (target_of icon) [(''rotation'', Num 0), (''scale'', Num 1)])
        \<lparr>duration := 0.4, ease := Some ''power2.out''\<rparr>]"

definition service_card :: "node \<Rightarrow> error + call list" where
  "service_card the_card =
     Inr [Listen \<lparr>l_target = nid the_card, l_event = ''mouseenter'',
                  l_handler = card_enter the_card (querySelector the_card (ByClass ''service-icon''))\<rparr>,
          Listen \<lparr>l_target = nid the_card, l_event = ''mouseleave'',
                  l_handler = card_leave the_card (querySelector the_card (ByClass ''service-icon''))\<rparr>]"

definition service_hover :: "page \<Rightarrow> error + call list" where
  "service_hover p =
     for_each service_card (querySelectorAll (document p) (ByClass ''service-card''))"

subsection \<open>The function passed to \<open>gsap.context\<close> (lines 152-698)\<close>

definition body :: "env \<Rightarrow> page \<Rightarrow> error + call list" where
  "body ev p =
     andthen (hero_title p)
    (andthen (hero_subtitle p)
    (andthen (hero_buttons p)
    (andthen (services p)
    (andthen (projects p)
    (andthen (tech ev p)
    (andthen (about p)
    (andthen (contact ev p)
             (service_hover p))))))))"

section \<open>The library's registry, mounting and unmounting\<close>

text \<open>
  What the library holds: the tweens and the standalone scroll triggers, each with the
  context that recorded it (\<open>gsap.context\<close> records what is created while its function
  runs; a tween started later by an event handler belongs to no context) and the time it
  was created at. The listeners are held by the elements of the page, not by the
  library: \<open>addEventListener\<close> stores them, and only \<open>removeEventListener\<close>, which the
  source never calls, takes one away.
\<close>

record entry =
  owner :: "nat option"
  born :: real
  the_tween :: tween

record engine =
  tweens :: "entry list"
  observers :: "(nat option \<times> observer) list"
  listeners :: "listener list"
  next_ctx :: nat
  now :: real

definition started :: "nat option \<Rightarrow> engine \<Rightarrow> tween \<Rightarrow> entry" where
  "started c s tw = \<lparr>owner = c, born = now s, the_tween = tw\<rparr>"

fun register :: "nat option \<Rightarrow> call \<Rightarrow> engine \<Rightarrow> engine" where
  "register c (Animate tw) s = s\<lparr>tweens := tweens s @ [started c s tw]\<rparr>"
| "register c (Observe ob) s = s\<lparr>observers := observers s @ [(c, ob)]\<rparr>"
| "register c (Listen l) s = s\<lparr>listeners := listeners s @ [l]\<rparr>"

text \<open>
  \<open>const ctx = gsap.context(() => {...}, heroRef)\<close>: a new context records every call
  of the body. The effect returns the cleanup \<open>() => ctx.revert()\<close>, here the context's
  number.
\<close>

definition initialize :: "env \<Rightarrow> page \<Rightarrow> engine \<Rightarrow> error + (nat \<times> engine)" where
  "initialize ev p s =
     then_res (body ev p) (\<lambda>cs.
       Inr (next_ctx s,
            fold (register (Some (next_ctx s))) cs (s\<lparr>next_ctx := Suc (next_ctx s)\<rparr>)))"

text \<open>\<open>ctx.revert()\<close> kills what the context recorded, and nothing else.\<close>

definition revert :: "nat \<Rightarrow> engine \<Rightarrow> engine" where
  "revert c s =
     s\<lparr>tweens := filter (\<lambda>e. owner e \<noteq> Some c) (tweens s),
       observers := filter (\<lambda>(ow, ob). ow \<noteq> Some c) (observers s)\<rparr>"

definition teardown :: "nat \<Rightarrow> engine \<Rightarrow> engine" where
  "teardown c s = revert c s"

definition fresh :: engine where
  "fresh = \<lparr>tweens = [], observers = [], listeners = [], next_ctx = 0, now = 0\<rparr>"

text \<open>
  What can happen between mount and unmount: a pointer or focus event arrives at an
  element and every listener of that element for that event runs its handler (the
  tweens it starts belong to no context); a target scrolls past the start of a
  standalone trigger and its \<open>onEnter\<close> runs (inside the trigger's context); time passes,
  a number of milliseconds. Starting a tween takes no other tween away: the library
  cancels the running tweens of a target only when a tween asks for it (\<open>overwrite\<close>),
  and no tween of the source does.
\<close>

datatype event = Dispatch elem string | ScrollEnter elem | Tick nat

definition dispatch :: "elem \<Rightarrow> string \<Rightarrow> engine \<Rightarrow> engine" where
  "dispatch e name s =
     fold (\<lambda>l s'. if l_target l = e \<and> l_event l = name
                  then s'\<lparr>tweens := tweens s' @ map (started None s') (l_handler l)\<rparr>
                  else s')
       (listeners s) s"

definition scroll_enter :: "elem \<Rightarrow> engine \<Rightarrow> engine" where
  "scroll_enter e s =
     fold (\<lambda>(ow, ob) s'. if o_trigger ob = Some e
                  then s'\<lparr>tweens := tweens s' @ map (started ow s') (o_onEnter ob)\<rparr>
                  else s')
       (observers s) s"

fun step :: "event \<Rightarrow> engine \<Rightarrow> engine" where
  "step (Dispatch e name) s = dispatch e name s"
| "step (ScrollEnter e) s = scroll_enter e s"
| "step (Tick ms) s = s\<lparr>now := now s + real ms / 1000\<rparr>"

definition steps :: "event list \<Rightarrow> engine \<Rightarrow> engine" where
  "steps evs s = fold step evs s"

text \<open>
  A tween with \<open>repeat: n\<close> plays \<open>n + 1\<close> times, \<open>repeat: -1\<close> for ever; \<open>run_time\<close> is
  the time from its creation to its end (\<open>None\<close>: it has no end), counted for one
  target. It is in flight at the times before that.
\<close>

definition run_time :: "tween \<Rightarrow> real option" where
  "run_time tw =
     (if repeat tw < 0 then None
      else Some (delay tw + duration tw * (1 + real_of_int (repeat tw))))"

definition in_flight :: "entry \<Rightarrow> real \<Rightarrow> bool" where
  "in_flight e t =
     (born e \<le> t \<and> (case run_time (the_tween e) of None \<Rightarrow> True | Some d \<Rightarrow> t < born e + d))"

text \<open>One mount followed by its unmount.\<close>

definition mount_unmount :: "env \<Rightarrow> page \<Rightarrow> engine \<Rightarrow> engine" where
  "mount_unmount ev p s =
     (case initialize ev p s of Inl e \<Rightarrow> s | Inr (c, s') \<Rightarrow> teardown c s')"

text \<open>
  The viewport observers the library holds: the standalone triggers and the triggers
  that tweens carry in their \<open>scrollTrigger\<close> option.
\<close>

definition active_observers :: "engine \<Rightarrow> nat" where
  "active_observers s =
     length (observers s) +
     length (filter (\<lambda>e. scrollTrigger (the_tween e) \<noteq> None) (tweens s))"

section \<open>Reading the list of calls\<close>

definition ok :: "error + 'a \<Rightarrow> bool" where
  "ok r = (case r of Inl e \<Rightarrow> False | Inr x \<Rightarrow> True)"

definition calls_of :: "error + 'a list \<Rightarrow> 'a list" where
  "calls_of r = (case r of Inl e \<Rightarrow> [] | Inr xs \<Rightarrow> xs)"

fun animation :: "call \<Rightarrow> tween list" where
  "animation (Animate tw) = [tw]"
| "animation (Observe ob) = []"
| "animation (Listen l) = []"

fun standalone :: "call \<Rightarrow> observer list" where
  "standalone (Animate tw) = []"
| "standalone (Observe ob) = [ob]"
| "standalone (Listen l) = []"

fun listening :: "call \<Rightarrow> listener list" where
  "listening (Animate tw) = []"
| "listening (Observe ob) = []"
| "listening (Listen l) = [l]"

text \<open>Every tween a call creates at once or holds for a later event.\<close>

fun tweens_of :: "call \<Rightarrow> tween list" where
  "tweens_of (Animate tw) = [tw]"
| "tweens_of (Observe ob) = o_onEnter ob"
| "tweens_of (Listen l) = l_handler l"

section \<open>What the options of a call mean\<close>

subsection \<open>Where a tween starts from and where it ends\<close>

text \<open>
  \<open>gsap.fromTo\<close> starts from the values it is given. \<open>gsap.to\<close> is given only the end
  values and starts from the values its target has when the tween starts. A tween
  that has run to its end leaves its end values on every target.
\<close>

type_synonym props = "string \<Rightarrow> val"

type_synonym scene = "elem \<Rightarrow> props"


definition finish :: "tween \<Rightarrow> scene \<Rightarrow> scene" where
  "finish tw sc =
     fold (\<lambda>e sc'. sc'(e := fold (\<lambda>(k, v) pr. pr(k := v)) (to_vars tw) (sc' e)))
       (targets tw) sc"





subsection \<open>Scroll triggers\<close>

text \<open>
  The four moments a scroll trigger reports. A tween with a \<open>scrollTrigger\<close> option is
  played, reversed or left alone at each of them as its \<open>toggleActions\<close> say. The
  play head of such a tween is its progress between its start state (0) and its end
  state (1) and the direction it moves in.
\<close>

datatype scroll_event = Enter | Leave | EnterBack | LeaveBack

fun toggle :: "action \<times> action \<times> action \<times> action \<Rightarrow> scroll_event \<Rightarrow> action" where
  "toggle (a, b, c, d) Enter = a"
| "toggle (a, b, c, d) Leave = b"
| "toggle (a, b, c, d) EnterBack = c"
| "toggle (a, b, c, d) LeaveBack = d"

record playhead =
  progress :: real
  direction :: action

definition idle :: playhead where
  "idle = \<lparr>progress = 0, direction = NoAction\<rparr>"

definition act :: "action \<Rightarrow> playhead \<Rightarrow> playhead" where
  "act a ph = (if a = NoAction then ph else ph\<lparr>direction := a\<rparr>)"

definition advance :: "real \<Rightarrow> playhead \<Rightarrow> playhead" where
  "advance dt ph =
     (case direction ph of
        Play \<Rightarrow> ph\<lparr>progress := min 1 (progress ph + dt)\<rparr>
      | Reverse \<Rightarrow> ph\<lparr>progress := max 0 (progress ph - dt)\<rparr>
      | NoAction \<Rightarrow> ph)"

definition shown :: "tween \<Rightarrow> playhead \<Rightarrow> vars option" where
  "shown tw ph =
     (if progress ph = 0 then Some (from_vars tw)
      else if progress ph = 1 then Some (to_vars tw) else None)"

text \<open>
  What a viewport rule does at a scroll event: a tween with a trigger moves its play
  head; a standalone trigger has the one callback the source gives it, \<open>onEnter\<close>,
  and starts that callback's tweens.
\<close>

definition on_scroll :: "tween \<Rightarrow> scroll_event \<Rightarrow> playhead \<Rightarrow> playhead" where
  "on_scroll tw sev ph =
     (case scrollTrigger tw of
        None \<Rightarrow> ph
      | Some st \<Rightarrow> act (toggle (toggleActions st) sev) ph)"

definition callback :: "observer \<Rightarrow> scroll_event \<Rightarrow> tween list" where
  "callback ob sev = (if sev = Enter then o_onEnter ob else [])"

definition reversible :: "tween \<Rightarrow> bool" where
  "reversible tw =
     (progress (advance 1 (on_scroll tw Enter idle)) = 1 \<and>
      progress (advance 1 (on_scroll tw LeaveBack
        (advance 1 (on_scroll tw Enter idle)))) = 0)"

subsection \<open>Stagger\<close>

text \<open>
  The start offsets of the \<open>n\<close> targets of a staggered tween. A number is the delay
  added per item. An amount is split: the pattern (\<open>from\<close>, \<open>grid\<close>) gives every
  target a distance, the distances are scaled to the range from 0 to 1, passed through
  the stagger's own ease if it has one, and multiplied by the amount. The table of
  distances of the patterns and the table of eases belong to the library; they are
  parameters here.
\<close>

definition scaled :: "real list \<Rightarrow> nat \<Rightarrow> real" where
  "scaled ds i =
     (if Max (set ds) = Min (set ds) then 0
      else (ds ! i - Min (set ds)) / (Max (set ds) - Min (set ds)))"

definition start_offsets ::
  "(pattern \<Rightarrow> (nat \<times> nat) option \<Rightarrow> nat \<Rightarrow> real list) \<Rightarrow> (string \<Rightarrow> real \<Rightarrow> real) \<Rightarrow>
   stagger \<Rightarrow> nat \<Rightarrow> real list" where
  "start_offsets dtab ez st n =
     (case st of
        Each d \<Rightarrow> map (\<lambda>i. d * real i) [0..<n]
      | Amount a pat grid e \<Rightarrow>
          map (\<lambda>i. a * (case e of None \<Rightarrow> scaled (dtab pat grid n) i
                                  | Some name \<Rightarrow> ez name (scaled (dtab pat grid n) i)))
            [0..<n])"

definition spread :: "real list \<Rightarrow> real" where
  "spread offs = (if offs = [] then 0 else Max (set offs) - Min (set offs))"

definition unit_ease :: "(string \<Rightarrow> real \<Rightarrow> real) \<Rightarrow> bool" where
  "unit_ease ez = (\<forall>name r. 0 \<le> r \<and> r \<le> 1 \<longrightarrow> 0 \<le> ez name r \<and> ez name r \<le> 1)"

text \<open>
  Sample tables for evaluation: distances that grow with the index, and the ease
  \<open>power2.out\<close>, \<open>1 - (1 - r)^3\<close>, for every name.
\<close>

definition linear_dist :: "pattern \<Rightarrow> (nat \<times> nat) option \<Rightarrow> nat \<Rightarrow> real list" where
  "linear_dist pat grid n = map real [0..<n]"

definition cubic_out :: "string \<Rightarrow> real \<Rightarrow> real" where
  "cubic_out name r = 1 - (1 - r) ^ 3"

subsection \<open>Ambient motion\<close>

definition ambient :: "tween \<Rightarrow> bool" where
  "ambient tw =
     (kind tw = ToK \<and> repeat tw = - 1 \<and> yoyo tw \<and> scrollTrigger tw = None \<and>
      placement tw = Global \<and> run_time tw = None)"

section \<open>The page as it is rendered\<close>

text \<open>
  The tree that the markup of \<open>Portfolio\<close> (lines 763-1152) renders, with the elements
  the effect looks for: the three service cards with their icons, the three project
  cards, the twelve technology badges, the six counters with their texts, the six
  icons, the contact items, the three social buttons and the four form inputs. Of the
  class names only those the selectors use are kept, and wrappers without a role are
  left out.
\<close>

definition hero_section :: node where
  "hero_section =
     Node 3 ''section'' [] []
       [Node 4 ''h1'' [] ''Secure. Build. Innovate.'' [],
        Node 5 ''p'' [] [] [],
        Node 6 ''div'' []  []
          [Node 7 ''button'' [] ''Get Started'' [],
           Node 8 ''button'' [] ''View Portfolio'' []]]"

definition services_section :: node where
  "services_section =
     Node 10 ''section'' [] []
       [Node 11 ''div'' [''service-card''] [] [Node 14 ''div'' [''service-icon''] [] []],
        Node 12 ''div'' [''service-card''] [] [Node 15 ''div'' [''service-icon''] [] []],
        Node 13 ''div'' [''service-card''] [] [Node 16 ''div'' [''service-icon''] [] []]]"

definition projects_section :: node where
  "projects_section =
     Node 20 ''section'' [] []
       [Node 21 ''div'' [''project-card''] [] [],
        Node 22 ''div'' [''project-card''] [] [],
        Node 23 ''div'' [''project-card''] [] []]"

definition tech_section :: node where
  "tech_section =
     Node 30 ''section'' [] []
       [Node 31 ''div'' [''tech-badge''] [] [],
        Node 32 ''div'' [''tech-badge''] [] [],
        Node 33 ''div'' [''tech-badge''] [] [],
        Node 34 ''div'' [''tech-badge''] [] [],
        Node 35 ''div'' [''tech-badge''] [] [],
        Node 36 ''div'' [''tech-badge''] [] [],
        Node 37 ''div'' [''tech-badge''] [] [],
        Node 38 ''div'' [''tech-badge''] [] [],
        Node 39 ''div'' [''tech-badge''] [] [],
        Node 40 ''div'' [''tech-badge''] [] [],
        Node 41 ''div'' [''tech-badge''] [] [],
        Node 42 ''div'' [''tech-badge''] [] [],
        Node 43 ''div'' [''tech-stat''] []
          [Node 46 ''div'' [] ''12+'' [], Node 49 ''div'' [] ''Technologies'' []],
        Node 44 ''div'' [''tech-stat''] []
          [Node 47 ''div'' [] ''5+'' [], Node 50 ''div'' [] ''Years Experience'' []],
        Node 45 ''div'' [''tech-stat''] []
          [Node 48 ''div'' [] ''100%'' [], Node 51 ''div'' [] ''Up to Date'' []]]"

definition about_section :: node where
  "about_section =
     Node 60 ''section'' [] []
       [Node 61 ''div'' [''stat-item''] []
          [Node 64 ''div'' [''stat-number''] ''50+'' [],
           Node 67 ''div'' [''stat-label''] ''Projects Completed'' []],
        Node 62 ''div'' [''stat-item''] []
          [Node 65 ''div'' [''stat-number''] ''5+'' [],
           Node 68 ''div'' [''stat-label''] ''Years Experience'' []],
        Node 63 ''div'' [''stat-item''] []
          [Node 66 ''div'' [''stat-number''] ''100%'' [],
           Node 69 ''div'' [''stat-label''] ''Client Satisfaction'' []],
        Node 70 ''div'' [''icon-grid''] []
          [Node 71 ''div'' [''tech-icon''] [] [],
           Node 72 ''div'' [''tech-icon''] [] [],
           Node 73 ''div'' [''tech-icon''] [] [],
           Node 74 ''div'' [''tech-icon''] [] [],
           Node 75 ''div'' [''tech-icon''] [] [],
           Node 76 ''div'' [''tech-icon''] [] []]]"

definition contact_section :: node where
  "contact_section =
     Node 80 ''section'' [] []
       [Node 81 ''div'' [''contact-info''] []
          [Node 82 ''div'' [''contact-item''] [] [],
           Node 83 ''div'' [''contact-item''] [] [],
           Node 84 ''div'' [''contact-item''] [] [],
           Node 85 ''button'' [''social-btn''] [] [],
           Node 86 ''button'' [''social-btn''] [] [],
           Node 87 ''button'' [''social-btn''] [] []],
        Node 88 ''div'' [''contact-form''] []
          [Node 89 ''input'' [''form-input''] [] [],
           Node 90 ''input'' [''form-input''] [] [],
           Node 91 ''input'' [''form-input''] [] [],
           Node 92 ''textarea'' [''form-input''] [] []]]"

definition portfolio_root :: node where
  "portfolio_root =
     Node 1 ''div'' [] []
       [Node 2 ''nav'' [] [] [], hero_section, services_section, projects_section,
        tech_section, about_section, contact_section, Node 99 ''footer'' [] [] []]"

definition portfolio_page :: page where
  "portfolio_page =
     \<lparr>document = Node 0 ''#document'' [] [] [portfolio_root],
      heroRef = Some portfolio_root,
      titleRef = Some (Node 4 ''h1'' [] ''Secure. Build. Innovate.'' []),
      subtitleRef = Some (Node 5 ''p'' [] [] []),
      buttonsRef = Some (Node 6 ''div'' []  []
          [Node 7 ''button'' [] ''Get Started'' [],
           Node 8 ''button'' [] ''View Portfolio'' []]),
      servicesRef = Some services_section,
      projectsRef = Some projects_section,
      techRef = Some tech_section,
      aboutRef = Some about_section,
      contactRef = Some contact_section\<rparr>"

definition sample_env :: env where
  "sample_env = \<lparr>random_badge = (\<lambda>i. 1 / 2), random_social = (\<lambda>i. 1 / 4)\<rparr>"

text \<open>A page on which nothing is mounted: every ref is \<open>null\<close> and the document is empty.\<close>

definition empty_page :: page where
  "empty_page =
     \<lparr>document = Node 0 ''#document'' [] [] [],
      heroRef = None, titleRef = None, subtitleRef = None, buttonsRef = None,
      servicesRef = None, projectsRef = None, techRef = None, aboutRef = None,
      contactRef = None\<rparr>"

text \<open>
  A page whose title and technologies section are not mounted and whose services,
  projects and contact sections are mounted empty, so that none of their selectors
  finds anything.
\<close>

definition partial_page :: page where
  "partial_page =
     portfolio_page\<lparr>titleRef := None, techRef := None,
       servicesRef := Some (Node 10 ''section'' [] [] []),
       projectsRef := Some (Node 20 ''section'' [] [] []),
       contactRef := Some (Node 80 ''section'' [] [] [])\<rparr>"

section \<open>The elements a page holds\<close>

definition subtree :: "node \<Rightarrow> node list" where
  "subtree r = r # map snd (marked r)"

definition mounted :: "page \<Rightarrow> node list" where
  "mounted p =
     subtree (document p) @
     concat (map (\<lambda>r. case r of None \<Rightarrow> [] | Some n \<Rightarrow> subtree n)
       [titleRef p, subtitleRef p, buttonsRef p, servicesRef p, projectsRef p,
        techRef p, aboutRef p, contactRef p])"

definition present :: "page \<Rightarrow> elem \<Rightarrow> bool" where
  "present p e = (e \<in> nid ` set (mounted p))"

text \<open>A call has real targets when every element it names is an element of the page.\<close>

definition real_targets :: "page \<Rightarrow> call \<Rightarrow> bool" where
  "real_targets p c =
     (list_all (\<lambda>tw. list_all (present p) (targets tw)) (tweens_of c) \<and>
      list_all (\<lambda>l. present p (l_target l)) (listening c))"

section \<open>Notions the statements use\<close>

text \<open>The engine after one more pass of \<open>initialize\<close>, without the cleanup.\<close>

definition mount :: "env \<Rightarrow> page \<Rightarrow> engine \<Rightarrow> engine" where
  "mount ev p s = (case initialize ev p s of Inl e \<Rightarrow> s | Inr (c, s') \<Rightarrow> s')"

text \<open>
  An engine is released when no context owns anything in it: it holds no standalone
  trigger, and its tweens were started by event handlers and carry no scroll trigger.
\<close>

definition released :: "engine \<Rightarrow> bool" where
  "released s =
     (observers s = [] \<and>
      list_all (\<lambda>e. owner e = None \<and> scrollTrigger (the_tween e) = None) (tweens s) \<and>
      list_all (\<lambda>l. list_all (\<lambda>tw. scrollTrigger tw = None) (l_handler l)) (listeners s))"

text \<open>
  What the handlers of the listeners start: a \<open>gsap.to\<close> with a duration and an ease
  and nothing else, so no start values, no trigger, no repeat, no delay, no stagger.
\<close>

definition plain_to :: "tween \<Rightarrow> bool" where
  "plain_to tw =
     (kind tw = ToK \<and> from_vars tw = [] \<and> scrollTrigger tw = None \<and> stagger tw = None \<and>
      repeat tw = 0 \<and> delay tw = 0 \<and> placement tw = Global)"

definition plain_handlers :: "call \<Rightarrow> bool" where
  "plain_handlers c = list_all (\<lambda>l. list_all plain_to (l_handler l)) (listening c)"

text \<open>
  What the source writes for every tween that carries a scroll trigger: a \<open>fromTo\<close>
  with \<open>toggleActions: "play none none reverse"\<close>.
\<close>

definition plays_and_reverses :: "call \<Rightarrow> bool" where
  "plays_and_reverses c =
     list_all (\<lambda>tw. case scrollTrigger tw of
                       None \<Rightarrow> True
                     | Some st \<Rightarrow> kind tw = FromToK \<and>
                         toggleActions st = (Play, NoAction, NoAction, Reverse))
       (tweens_of c)"

text \<open>The stagger options the source writes.\<close>

definition staggers_as_written :: "call \<Rightarrow> bool" where
  "staggers_as_written c =
     list_all (\<lambda>tw. stagger tw \<in> set
         [None, Some (Each 0.2), Some (Each 0.1),
          Some (Amount 1.2 FromRandom None (Some ''power2.out'')),
          Some (Amount 0.8 FromStart None None),
          Some (Amount 1 FromCenter (Some (3, 2)) None)])
       (tweens_of c)"

text \<open>A table of distances gives one distance to each of the \<open>n\<close> targets.\<close>

definition full_table :: "(pattern \<Rightarrow> (nat \<times> nat) option \<Rightarrow> nat \<Rightarrow> real list) \<Rightarrow> bool" where
  "full_table dtab = (\<forall>pat grid n. length (dtab pat grid n) = n)"



text \<open>
  An entry that keeps running whatever happens on the page, and ends with the teardown
  of its context.
\<close>

definition runs_until_teardown :: "nat \<Rightarrow> engine \<Rightarrow> entry \<Rightarrow> bool" where
  "runs_until_teardown c s e =
     (\<forall>evs. e \<in> set (tweens (steps evs s)) \<and> in_flight e (now (steps evs s)) \<and>
            e \<notin> set (tweens (teardown c (steps evs s))))"

text \<open>
  Between a mount and its unmount every scroll trigger belongs to the mount's context,
  and a tween belongs to it or was started by an event handler.
\<close>

definition owned_or_loose :: "nat \<Rightarrow> engine \<Rightarrow> bool" where
  "owned_or_loose c s =
     (list_all (\<lambda>(ow, ob). ow = Some c) (observers s) \<and>
      list_all (\<lambda>l. list_all (\<lambda>tw. scrollTrigger tw = None) (l_handler l)) (listeners s) \<and>
      list_all (\<lambda>e. owner e = Some c \<or> owner e = None \<and> scrollTrigger (the_tween e) = None)
        (tweens s))"




text \<open>
  The elements a call is aimed at: the targets of the tweens it creates or holds for a
  later event, and the element it listens on.
\<close>

definition aims :: "call \<Rightarrow> elem set" where
  "aims c = set (concat (map targets (tweens_of c))) \<union> l_target ` set (listening c)"

text \<open>A page on which only the services section is mounted, without any card in it.\<close>

definition no_cards_page :: page where
  "no_cards_page = empty_page\<lparr>servicesRef := Some (Node 10 ''section'' [] [] [])\<rparr>"

section \<open>Facts about the result type and the body\<close>

lemma then_res_Inr [simp]: "then_res (Inr x) f = f x"
  by (simp add: then_res_def)

lemma then_res_Inl [simp]: "then_res (Inl e) f = Inl e"
  by (simp add: then_res_def)

lemma andthen_Inr [simp]: "andthen (Inr xs) (Inr ys) = Inr (xs @ ys)"
  by (simp add: andthen_def)

lemma ok_Inr [simp]: "ok (Inr x)"
  by (simp add: ok_def)

lemma ok_Inl [simp]: "\<not> ok (Inl e)"
  by (simp add: ok_def)

lemma calls_of_Inr [simp]: "calls_of (Inr xs) = xs"
  by (simp add: calls_of_def)

lemma ok_eq: "ok r \<Longrightarrow> r = Inr (calls_of r)"
  by (cases r) simp_all

lemma andthen_ok: "ok a \<Longrightarrow> ok b \<Longrightarrow> andthen a b = Inr (calls_of a @ calls_of b)"
  by (cases a; cases b) simp_all

lemma for_each_ok:
  "(\<And>x. x \<in> set xs \<Longrightarrow> ok (f x)) \<Longrightarrow>
   for_each f xs = Inr (concat (map (\<lambda>x. calls_of (f x)) xs))"
proof (induction xs)
  case Nil
  show ?case by simp
next
  case (Cons x xs)
  have "ok (f x)" using Cons.prems by simp
  then have fx: "f x = Inr (calls_of (f x))" by (rule ok_eq)
  have rest: "for_each f xs = Inr (concat (map (\<lambda>x. calls_of (f x)) xs))"
    using Cons by simp
  show ?case
    apply (simp add: rest)
    apply (subst fx)
    apply simp
    done
qed

lemma counter_eq:
  "counter number stat dur del =
     Inr (case number of None \<Rightarrow> [] | Some n \<Rightarrow>
       [Animate ((gsap_fromTo [nid n]
                 [(''textContent'', Str ''0'')] [(''textContent'', Str (textContent n))])
               \<lparr>duration := dur, delay := del, ease := Some ''power2.out'',
                snap := [(''textContent'', 1)],
                scrollTrigger := Some (play_reverse (Some (nid stat)) ''top 85%'' None)\<rparr>)])"
  by (cases number) (simp_all add: counter_def textContent_on_def target_of_def)

lemma ok_project_card: "ok (project_card x)"
  by (cases x) (simp add: project_card_def)

lemma ok_tech_badge: "ok (tech_badge ev x)"
  by (cases x) (simp add: tech_badge_def)

lemma ok_tech_stat: "ok (tech_stat x)"
  by (cases x) (simp add: tech_stat_def counter_eq)

lemma ok_about_icon: "ok (about_icon x)"
  by (cases x) (simp add: about_icon_def)

lemma ok_about_stat: "ok (about_stat x)"
  by (cases x) (simp add: about_stat_def counter_eq)

lemma ok_social_button: "ok (social_button ev x)"
  by (cases x) (simp add: social_button_def)

lemma ok_form_input: "ok (form_input x)"
  by (simp add: form_input_def)

lemma ok_service_card: "ok (service_card x)"
  by (simp add: service_card_def)

lemmas ok_bodies = ok_project_card ok_tech_badge ok_tech_stat ok_about_icon ok_about_stat
  ok_social_button ok_form_input ok_service_card

lemma ok_hero_title: "ok (hero_title p)"
  by (simp add: hero_title_def)

lemma ok_hero_subtitle: "ok (hero_subtitle p)"
  by (simp add: hero_subtitle_def)

lemma ok_hero_buttons: "ok (hero_buttons p)"
  by (cases "buttonsRef p") (simp_all add: hero_buttons_def children_on_def)

lemma ok_services: "ok (services p)"
  by (cases "servicesRef p") (simp_all add: services_def querySelectorAll_on_def)

lemma ok_projects: "ok (projects p)"
  by (cases "projectsRef p")
    (simp_all add: projects_def querySelectorAll_on_def for_each_ok ok_bodies)

lemma ok_tech: "ok (tech ev p)"
  by (cases "techRef p")
    (simp_all add: tech_def querySelectorAll_on_def for_each_ok ok_bodies)

lemma ok_about: "ok (about p)"
  by (cases "aboutRef p")
    (simp_all add: about_def querySelectorAll_on_def querySelector_on_def for_each_ok
      ok_bodies)

lemma ok_contact: "ok (contact ev p)"
  by (cases "contactRef p")
    (simp_all add: contact_def querySelectorAll_on_def querySelector_on_def for_each_ok
      ok_bodies)

lemma ok_service_hover: "ok (service_hover p)"
  by (simp add: service_hover_def for_each_ok ok_bodies)

lemmas ok_sections = ok_hero_title ok_hero_subtitle ok_hero_buttons ok_services ok_projects
  ok_tech ok_about ok_contact ok_service_hover

lemma body_eq:
  "body ev p =
     Inr (calls_of (hero_title p) @ calls_of (hero_subtitle p) @ calls_of (hero_buttons p) @
          calls_of (services p) @ calls_of (projects p) @ calls_of (tech ev p) @
          calls_of (about p) @ calls_of (contact ev p) @ calls_of (service_hover p))"
  unfolding body_def
  by (simp add: andthen_ok ok_sections)

section \<open>The project cards\<close>

lemma qsa_projects:
  "querySelectorAll projects_section (ByClass ''project-card'') =
     [Node 21 ''div'' [''project-card''] [] [],
      Node 22 ''div'' [''project-card''] [] [],
      Node 23 ''div'' [''project-card''] [] []]"
  by (simp add: querySelectorAll_def projects_section_def)

lemma project_card_calls:
  "calls_of (project_card (i, c)) =
     [Animate ((gsap_fromTo [nid c]
            [(''opacity'', Num 0),
             (''x'', Num (if even i then - 100 else 100)),
             (''rotation'', Num (if even i then - 5 else 5))]
            [(''opacity'', Num 1), (''x'', Num 0), (''rotation'', Num 0)])
          \<lparr>duration := 1, ease := Some ''power3.out'',
           scrollTrigger := Some (play_reverse (Some (nid c)) ''top 85%'' None)\<rparr>)]"
  by (simp add: project_card_def even_iff_mod_2_eq_zero)

lemma projects_calls:
  "projectsRef p = Some r \<Longrightarrow>
   projects p = Inr (map (\<lambda>x. hd (calls_of (project_card x)))
     (enumerate 0 (querySelectorAll r (ByClass ''project-card''))))"
proof -
  assume r: "projectsRef p = Some r"
  have one: "\<And>x. calls_of (project_card x) = [hd (calls_of (project_card x))]"
  proof -
    fix x :: "nat \<times> node"
    obtain i c where x: "x = (i, c)" by (cases x)
    show "calls_of (project_card x) = [hd (calls_of (project_card x))]"
      unfolding x project_card_calls by simp
  qed
  have "concat (map (\<lambda>x. calls_of (project_card x)) xs) =
        map (\<lambda>x. hd (calls_of (project_card x))) xs" for xs
    by (induction xs) (simp, subst one, simp)
  then show ?thesis
    using r by (simp add: projects_def querySelectorAll_on_def for_each_ok ok_bodies)
qed

text \<open>
  Claim C10. For every project card at index \<open>i\<close> among the elements that
  \<open>.project-card\<close> finds under the projects ref, the body registers, at position \<open>i\<close>
  of the calls of the projects section, a \<open>fromTo\<close> tween of that card alone that
  starts from opacity 0, \<open>x = -100\<close> and rotation \<open>-5\<close> when \<open>i\<close> is even and from
  \<open>x = 100\<close> and rotation \<open>5\<close> when \<open>i\<close> is odd, and that ends at opacity 1, \<open>x = 0\<close>
  and rotation 0.
\<close>

theorem project_cards_alternate:
  assumes "projectsRef p = Some r"
    and "i < length (querySelectorAll r (ByClass ''project-card''))"
  shows "\<exists>cs ps tw. body ev p = Inr cs \<and> projects p = Inr ps \<and> set ps \<subseteq> set cs \<and>
           length ps = length (querySelectorAll r (ByClass ''project-card'')) \<and>
           ps ! i = Animate tw \<and>
           targets tw = [nid (querySelectorAll r (ByClass ''project-card'') ! i)] \<and>
           kind tw = FromToK \<and>
           from_vars tw = [(''opacity'', Num 0),
                           (''x'', Num (if even i then - 100 else 100)),
                           (''rotation'', Num (if even i then - 5 else 5))] \<and>
           to_vars tw = [(''opacity'', Num 1), (''x'', Num 0), (''rotation'', Num 0)]"
proof -
  let ?cards = "querySelectorAll r (ByClass ''project-card'')"
  let ?ps = "map (\<lambda>x. hd (calls_of (project_card x))) (enumerate 0 ?cards)"
  have ps: "projects p = Inr ?ps"
    using assms(1) by (rule projects_calls)
  have sub: "set ?ps \<subseteq> set (calls_of (body ev p))"
    by (simp add: body_eq ps del: set_map) blast
  have nth: "?ps ! i = hd (calls_of (project_card (i, ?cards ! i)))"
    using assms(2) by (simp add: nth_enumerate_eq)
  show ?thesis
    apply (rule exI [of _ "calls_of (body ev p)"])
    apply (rule exI [of _ ?ps])
    apply (rule exI [of _ "(gsap_fromTo [nid (?cards ! i)]
            [(''opacity'', Num 0),
             (''x'', Num (if even i then - 100 else 100)),
             (''rotation'', Num (if even i then - 5 else 5))]
            [(''opacity'', Num 1), (''x'', Num 0), (''rotation'', Num 0)])
          \<lparr>duration := 1, ease := Some ''power3.out'',
           scrollTrigger := Some (play_reverse (Some (nid (?cards ! i))) ''top 85%'' None)\<rparr>"])
    using sub
    apply (simp only: ps nth project_card_calls)
    apply (simp add: body_eq gsap_fromTo_def gsap_to_def)
    done
qed

text \<open>The second card of the rendered page (index 1, element 22) comes in from the right.\<close>

theorem project_cards_alternate_witness:
  "\<exists>cs ps tw. body sample_env portfolio_page = Inr cs \<and>
     projects portfolio_page = Inr ps \<and> set ps \<subseteq> set cs \<and> length ps = 3 \<and>
     ps ! 1 = Animate tw \<and> targets tw = [22] \<and> kind tw = FromToK \<and>
     from_vars tw = [(''opacity'', Num 0), (''x'', Num 100), (''rotation'', Num 5)] \<and>
     to_vars tw = [(''opacity'', Num 1), (''x'', Num 0), (''rotation'', Num 0)]"
proof -
  have r: "projectsRef portfolio_page = Some projects_section"
    by (simp add: portfolio_page_def)
  have n: "1 < length (querySelectorAll projects_section (ByClass ''project-card''))"
    by (simp add: qsa_projects)
  from project_cards_alternate [OF r n, of sample_env] show ?thesis
    by (simp add: qsa_projects numeral_3_eq_3)
qed

section \<open>The elements that the calls name\<close>

lemma marked_kids:
  "snd ` set (marked (Node i t c x ks)) = (\<Union>k \<in> set ks. insert k (snd ` set (marked k)))"
  by (cases ks) (simp_all add: image_Un image_UN)

lemma marked_trans:
  "n \<in> snd ` set (marked r) \<Longrightarrow> snd ` set (marked n) \<subseteq> snd ` set (marked r)"
proof (induction r rule: marked.induct)
  case (1 i t c x ks)
  from "1.prems" obtain k where k: "k \<in> set ks" and n: "n = k \<or> n \<in> snd ` set (marked k)"
    unfolding marked_kids by auto
  have "snd ` set (marked n) \<subseteq> snd ` set (marked k)"
  proof (cases "n = k")
    case True
    then show ?thesis by simp
  next
    case False
    with n have nk: "n \<in> snd ` set (marked k)" by simp
    show ?thesis
    proof (cases ks)
      case Nil
      with k show ?thesis by simp
    next
      case (Cons a rest)
      show ?thesis
      proof (cases "k = a")
        case True
        with "1.IH"(1) [OF Cons] nk show ?thesis by simp
      next
        case False
        with k Cons have "k \<in> set rest" by simp
        from "1.IH"(2) [OF Cons this nk] show ?thesis .
      qed
    qed
  qed
  also have "\<dots> \<subseteq> snd ` set (marked (Node i t c x ks))"
    unfolding marked_kids using k by auto
  finally show ?case .
qed

lemma qsa_marked: "n \<in> set (querySelectorAll r sel) \<Longrightarrow> n \<in> set (subtree r)"
  by (auto simp: querySelectorAll_def subtree_def)

lemma qs_marked: "querySelector r sel = Some n \<Longrightarrow> n \<in> set (subtree r)"
  using qsa_marked [of n r sel]
  by (auto simp: querySelector_def split: list.splits)

lemma subtree_trans: "n \<in> set (subtree r) \<Longrightarrow> m \<in> set (subtree n) \<Longrightarrow> m \<in> set (subtree r)"
  using marked_trans [of n r] by (auto simp: subtree_def)

lemma kids_subtree: "n \<in> set (kids r) \<Longrightarrow> n \<in> set (subtree r)"
  by (cases r) (auto simp: subtree_def marked_kids simp del: marked.simps)

lemma subtree_self: "r \<in> set (subtree r)"
  by (simp add: subtree_def)

lemma present_doc: "n \<in> set (subtree (document p)) \<Longrightarrow> present p (nid n)"
  by (simp add: present_def mounted_def)

lemma present_refs:
  "titleRef p = Some r \<Longrightarrow> n \<in> set (subtree r) \<Longrightarrow> present p (nid n)"
  "subtitleRef p = Some r \<Longrightarrow> n \<in> set (subtree r) \<Longrightarrow> present p (nid n)"
  "buttonsRef p = Some r \<Longrightarrow> n \<in> set (subtree r) \<Longrightarrow> present p (nid n)"
  "servicesRef p = Some r \<Longrightarrow> n \<in> set (subtree r) \<Longrightarrow> present p (nid n)"
  "projectsRef p = Some r \<Longrightarrow> n \<in> set (subtree r) \<Longrightarrow> present p (nid n)"
  "techRef p = Some r \<Longrightarrow> n \<in> set (subtree r) \<Longrightarrow> present p (nid n)"
  "aboutRef p = Some r \<Longrightarrow> n \<in> set (subtree r) \<Longrightarrow> present p (nid n)"
  "contactRef p = Some r \<Longrightarrow> n \<in> set (subtree r) \<Longrightarrow> present p (nid n)"
  by (simp_all add: present_def mounted_def)

lemma list_all_loop:
  "(\<And>x. x \<in> set xs \<Longrightarrow> list_all P (calls_of (f x))) \<Longrightarrow>
   list_all P (concat (map (\<lambda>x. calls_of (f x)) xs))"
  by (induction xs) simp_all

lemma enumerate_snd: "x \<in> set (enumerate k xs) \<Longrightarrow> snd x \<in> set xs"
  by (cases x) (auto simp: enumerate_eq_zip dest: set_zip_rightD)

lemma real_counter:
  assumes "\<And>m. m \<in> set (subtree stat) \<Longrightarrow> present p (nid m)"
    and "number = querySelector stat sel"
  shows "list_all (real_targets p) (calls_of (counter number stat dur del))"
proof (cases number)
  case None
  then show ?thesis by (simp add: counter_eq)
next
  case (Some n)
  with assms(2) have "n \<in> set (subtree stat)" by (simp add: qs_marked)
  then have "present p (nid n)" by (rule assms(1))
  with Some show ?thesis
    by (simp add: counter_eq real_targets_def gsap_fromTo_def gsap_to_def)
qed

lemma real_project_card:
  "present p (nid (snd x)) \<Longrightarrow> list_all (real_targets p) (calls_of (project_card x))"
  by (cases x) (simp add: project_card_def real_targets_def gsap_fromTo_def gsap_to_def)

lemma real_tech_badge:
  "present p (nid (snd x)) \<Longrightarrow> list_all (real_targets p) (calls_of (tech_badge ev x))"
  by (cases x)
    (simp add: tech_badge_def real_targets_def gsap_to_def badge_enter_def badge_leave_def)

lemma real_about_icon:
  "present p (nid (snd x)) \<Longrightarrow> list_all (real_targets p) (calls_of (about_icon x))"
  by (cases x)
    (simp add: about_icon_def real_targets_def gsap_to_def icon_enter_def icon_leave_def)

lemma real_social_button:
  "present p (nid (snd x)) \<Longrightarrow> list_all (real_targets p) (calls_of (social_button ev x))"
  by (cases x)
    (simp add: social_button_def real_targets_def gsap_to_def gsap_set_def
      social_enter_def social_leave_def)

lemma real_form_input:
  "present p (nid x) \<Longrightarrow> list_all (real_targets p) (calls_of (form_input x))"
  by (simp add: form_input_def real_targets_def gsap_to_def input_focus_def input_blur_def)

lemma real_tech_stat:
  assumes "\<And>m. m \<in> set (subtree (snd x)) \<Longrightarrow> present p (nid m)"
  shows "list_all (real_targets p) (calls_of (tech_stat x))"
proof -
  obtain i stat where x: "x = (i, stat)" by (cases x)
  have a: "present p (nid stat)" using assms x by (simp add: subtree_self)
  have b: "list_all (real_targets p)
     (calls_of (counter (querySelector stat DivFirstChild) stat 1.5 (real i * 0.2 + 0.8)))"
    using assms x by (intro real_counter) simp_all
  show ?thesis
    using a b
    by (simp add: x tech_stat_def counter_eq real_targets_def gsap_fromTo_def gsap_to_def)
qed

lemma real_about_stat:
  assumes "\<And>m. m \<in> set (subtree (snd x)) \<Longrightarrow> present p (nid m)"
  shows "list_all (real_targets p) (calls_of (about_stat x))"
proof -
  obtain i stat where x: "x = (i, stat)" by (cases x)
  have a: "present p (nid stat)" using assms x by (simp add: subtree_self)
  have b: "list_all (real_targets p)
     (calls_of (counter (querySelector stat (ByClass ''stat-number'')) stat 2
        (real i * 0.2 + 0.5)))"
    using assms x by (intro real_counter) simp_all
  show ?thesis
    using a b
    by (simp add: x about_stat_def counter_eq real_targets_def gsap_fromTo_def gsap_to_def)
qed

lemma real_service_card:
  assumes "\<And>m. m \<in> set (subtree x) \<Longrightarrow> present p (nid m)"
  shows "list_all (real_targets p) (calls_of (service_card x))"
proof -
  have a: "present p (nid x)" using assms by (simp add: subtree_self)
  have b: "list_all (present p) (target_of (querySelector x (ByClass ''service-icon'')))"
    using assms by (cases "querySelector x (ByClass ''service-icon'')")
      (simp_all add: target_of_def qs_marked)
  show ?thesis
    using a b
    by (simp add: service_card_def real_targets_def gsap_to_def card_enter_def
      card_leave_def)
qed

lemma real_hero_title: "list_all (real_targets p) (calls_of (hero_title p))"
  by (cases "titleRef p")
    (simp_all add: hero_title_def real_targets_def target_of_def gsap_set_def tl_fromTo_def
      gsap_fromTo_def gsap_to_def present_refs subtree_self)

lemma real_hero_subtitle: "list_all (real_targets p) (calls_of (hero_subtitle p))"
  by (cases "subtitleRef p")
    (simp_all add: hero_subtitle_def real_targets_def target_of_def tl_fromTo_def
      gsap_fromTo_def gsap_to_def present_refs subtree_self)

lemma real_hero_buttons: "list_all (real_targets p) (calls_of (hero_buttons p))"
proof (cases "buttonsRef p")
  case None
  then show ?thesis by (simp add: hero_buttons_def)
next
  case (Some r)
  then have "list_all (present p) (map nid (kids r))"
    by (simp add: list_all_iff present_refs kids_subtree)
  with Some show ?thesis
    by (simp add: hero_buttons_def children_on_def real_targets_def tl_fromTo_def
      gsap_fromTo_def gsap_to_def)
qed

lemma real_services: "list_all (real_targets p) (calls_of (services p))"
proof (cases "servicesRef p")
  case None
  then show ?thesis by (simp add: services_def)
next
  case (Some r)
  then have "list_all (present p) (map nid (querySelectorAll r (ByClass ''service-card'')))"
    by (simp add: list_all_iff present_refs qsa_marked)
  with Some show ?thesis
    by (simp add: services_def querySelectorAll_on_def real_targets_def
      gsap_fromTo_def gsap_to_def)
qed

lemma real_projects: "list_all (real_targets p) (calls_of (projects p))"
proof (cases "projectsRef p")
  case None
  then show ?thesis by (simp add: projects_def)
next
  case (Some r)
  have "list_all (real_targets p) (calls_of (project_card x))"
    if "x \<in> set (enumerate 0 (querySelectorAll r (ByClass ''project-card'')))" for x
    using that Some by (intro real_project_card present_refs(5) [OF Some] qsa_marked)
      (rule enumerate_snd)
  then show ?thesis
    using Some
    by (simp add: projects_def querySelectorAll_on_def for_each_ok ok_bodies list_all_loop)
qed

lemma real_tech: "list_all (real_targets p) (calls_of (tech ev p))"
proof (cases "techRef p")
  case None
  then show ?thesis by (simp add: tech_def)
next
  case (Some r)
  note here = present_refs(6) [OF Some]
  have badges: "list_all (present p) (map nid (querySelectorAll r (ByClass ''tech-badge'')))"
    by (simp add: list_all_iff here qsa_marked)
  have loop1: "list_all (real_targets p) (calls_of (tech_badge ev x))"
    if "x \<in> set (enumerate 0 (querySelectorAll r (ByClass ''tech-badge'')))" for x
    using that by (intro real_tech_badge here qsa_marked) (rule enumerate_snd)
  have loop2: "list_all (real_targets p) (calls_of (tech_stat x))"
    if "x \<in> set (enumerate 0 (querySelectorAll r (ByClass ''tech-stat'')))" for x
  proof (rule real_tech_stat)
    fix m assume "m \<in> set (subtree (snd x))"
    moreover have "snd x \<in> set (subtree r)"
      using that by (intro qsa_marked) (rule enumerate_snd)
    ultimately show "present p (nid m)"
      by (intro here) (rule subtree_trans)
  qed
  show ?thesis
    using Some badges
    by (simp add: tech_def querySelectorAll_on_def for_each_ok ok_bodies andthen_ok
      list_all_loop loop1 loop2 real_targets_def gsap_fromTo_def gsap_to_def wave_def)
qed

lemma real_about: "list_all (real_targets p) (calls_of (about p))"
proof (cases "aboutRef p")
  case None
  then show ?thesis by (simp add: about_def)
next
  case (Some r)
  note here = present_refs(7) [OF Some]
  have icons: "list_all (present p) (map nid (querySelectorAll r (ByClass ''tech-icon'')))"
    by (simp add: list_all_iff here qsa_marked)
  have loop1: "list_all (real_targets p) (calls_of (about_icon x))"
    if "x \<in> set (enumerate 0 (querySelectorAll r (ByClass ''tech-icon'')))" for x
    using that by (intro real_about_icon here qsa_marked) (rule enumerate_snd)
  have loop2: "list_all (real_targets p) (calls_of (about_stat x))"
    if "x \<in> set (enumerate 0 (querySelectorAll r (ByClass ''stat-item'')))" for x
  proof (rule real_about_stat)
    fix m assume "m \<in> set (subtree (snd x))"
    moreover have "snd x \<in> set (subtree r)"
      using that by (intro qsa_marked) (rule enumerate_snd)
    ultimately show "present p (nid m)"
      by (intro here) (rule subtree_trans)
  qed
  show ?thesis
    using Some icons
    by (simp add: about_def querySelectorAll_on_def querySelector_on_def for_each_ok
      ok_bodies andthen_ok list_all_loop loop1 loop2 real_targets_def gsap_fromTo_def
      gsap_to_def)
qed

lemma real_contact: "list_all (real_targets p) (calls_of (contact ev p))"
proof (cases "contactRef p")
  case None
  then show ?thesis by (simp add: contact_def)
next
  case (Some r)
  note here = present_refs(8) [OF Some]
  have info: "list_all (present p) (target_of (querySelector r (ByClass ''contact-info'')))"
    by (cases "querySelector r (ByClass ''contact-info'')")
      (simp_all add: target_of_def here qs_marked)
  have form: "list_all (present p) (target_of (querySelector r (ByClass ''contact-form'')))"
    by (cases "querySelector r (ByClass ''contact-form'')")
      (simp_all add: target_of_def here qs_marked)
  have items: "list_all (present p) (map nid (querySelectorAll r (ByClass ''contact-item'')))"
    by (simp add: list_all_iff here qsa_marked)
  have inputs: "list_all (present p) (map nid (querySelectorAll r (ByClass ''form-input'')))"
    by (simp add: list_all_iff here qsa_marked)
  have loop1: "list_all (real_targets p) (calls_of (social_button ev x))"
    if "x \<in> set (enumerate 0 (querySelectorAll r (ByClass ''social-btn'')))" for x
    using that by (intro real_social_button here qsa_marked) (rule enumerate_snd)
  have loop2: "list_all (real_targets p) (calls_of (form_input x))"
    if "x \<in> set (querySelectorAll r (ByClass ''form-input''))" for x
    using that by (intro real_form_input here qsa_marked)
  show ?thesis
    using Some info form items inputs
    by (simp add: contact_def querySelectorAll_on_def querySelector_on_def for_each_ok
      ok_bodies andthen_ok list_all_loop loop1 loop2 real_targets_def gsap_fromTo_def
      gsap_to_def contact_entrances_def)
qed

lemma real_service_hover: "list_all (real_targets p) (calls_of (service_hover p))"
proof -
  have "list_all (real_targets p) (calls_of (service_card x))"
    if "x \<in> set (querySelectorAll (document p) (ByClass ''service-card''))" for x
  proof (rule real_service_card)
    fix m assume "m \<in> set (subtree x)"
    moreover have "x \<in> set (subtree (document p))"
      using that by (rule qsa_marked)
    ultimately show "present p (nid m)"
      by (intro present_doc) (rule subtree_trans)
  qed
  then show ?thesis
    by (simp add: service_hover_def for_each_ok ok_bodies list_all_loop)
qed

lemma real_body: "list_all (real_targets p) (calls_of (body ev p))"
  by (simp add: body_eq real_hero_title real_hero_subtitle real_hero_buttons real_services
    real_projects real_tech real_about real_contact real_service_hover)

lemma skipped:
  "titleRef p = None \<Longrightarrow> hero_title p = Inr []"
  "subtitleRef p = None \<Longrightarrow> hero_subtitle p = Inr []"
  "buttonsRef p = None \<Longrightarrow> hero_buttons p = Inr []"
  "servicesRef p = None \<Longrightarrow> services p = Inr []"
  "projectsRef p = None \<Longrightarrow> projects p = Inr []"
  "techRef p = None \<Longrightarrow> tech ev p = Inr []"
  "aboutRef p = None \<Longrightarrow> about p = Inr []"
  "contactRef p = None \<Longrightarrow> contact ev p = Inr []"
  by (simp_all add: hero_title_def hero_subtitle_def hero_buttons_def services_def
    projects_def tech_def about_def contact_def)

lemma register_all:
  "fold (register c) cs s =
     s\<lparr>tweens := tweens s @ map (started c s) (concat (map animation cs)),
       observers := observers s @ map (Pair c) (concat (map standalone cs)),
       listeners := listeners s @ concat (map listening cs)\<rparr>"
proof (induction cs arbitrary: s)
  case Nil
  show ?case by simp
next
  case (Cons a cs)
  show ?case
    by (cases a) (simp_all add: Cons started_def)
qed

lemma initialize_eq:
  "initialize ev p s =
     Inr (next_ctx s,
       s\<lparr>next_ctx := Suc (next_ctx s),
         tweens := tweens s @
           map (started (Some (next_ctx s)) s) (concat (map animation (calls_of (body ev p)))),
         observers := observers s @
           map (Pair (Some (next_ctx s))) (concat (map standalone (calls_of (body ev p)))),
         listeners := listeners s @ concat (map listening (calls_of (body ev p)))\<rparr>)"
  by (simp add: initialize_def body_eq register_all started_def)

section \<open>Facts about the registry\<close>

lemma dispatch_fold:
  "fold (\<lambda>l s'. if l_target l = e \<and> l_event l = name
                  then s'\<lparr>tweens := tweens s' @ map (started None s') (l_handler l)\<rparr>
                  else s') ls s =
   s\<lparr>tweens := tweens s @ map (started None s)
        (concat (map l_handler (filter (\<lambda>l. l_target l = e \<and> l_event l = name) ls)))\<rparr>"
proof (induction ls arbitrary: s)
  case Nil
  show ?case by simp
next
  case (Cons l ls)
  show ?case by (simp add: Cons started_def)
qed

lemma dispatch_eq:
  "dispatch e name s =
   s\<lparr>tweens := tweens s @ map (started None s)
        (concat (map l_handler
          (filter (\<lambda>l. l_target l = e \<and> l_event l = name) (listeners s))))\<rparr>"
  unfolding dispatch_def by (rule dispatch_fold)

lemma scroll_fold:
  "fold (\<lambda>(ow, ob) s'. if o_trigger ob = Some e
                  then s'\<lparr>tweens := tweens s' @ map (started ow s') (o_onEnter ob)\<rparr>
                  else s') obs s =
   s\<lparr>tweens := tweens s @
        concat (map (\<lambda>(ow, ob). map (started ow s) (o_onEnter ob))
          (filter (\<lambda>(ow, ob). o_trigger ob = Some e) obs))\<rparr>"
proof (induction obs arbitrary: s)
  case Nil
  show ?case by simp
next
  case (Cons x obs)
  obtain ow ob where x: "x = (ow, ob)" by (cases x)
  show ?case by (simp add: x Cons started_def)
qed

lemma scroll_enter_eq:
  "scroll_enter e s =
   s\<lparr>tweens := tweens s @
        concat (map (\<lambda>(ow, ob). map (started ow s) (o_onEnter ob))
          (filter (\<lambda>(ow, ob). o_trigger ob = Some e) (observers s)))\<rparr>"
  unfolding scroll_enter_def by (rule scroll_fold)

lemma step_keeps:
  "observers (step x s) = observers s"
  "listeners (step x s) = listeners s"
  "next_ctx (step x s) = next_ctx s"
  by (cases x; simp add: dispatch_eq scroll_enter_eq)+

lemma steps_keeps:
  "observers (steps evs s) = observers s \<and> listeners (steps evs s) = listeners s \<and>
   next_ctx (steps evs s) = next_ctx s"
  unfolding steps_def by (induction evs arbitrary: s) (simp_all add: step_keeps)

lemma step_appends: "\<exists>new. tweens (step x s) = tweens s @ new"
  by (cases x) (simp_all add: dispatch_eq scroll_enter_eq)

lemma steps_appends: "\<exists>new. tweens (steps evs s) = tweens s @ new"
  unfolding steps_def
proof (induction evs arbitrary: s)
  case Nil
  show ?case by simp
next
  case (Cons x evs)
  obtain a where a: "tweens (step x s) = tweens s @ a"
    using step_appends by blast
  obtain b where b: "tweens (fold step evs (step x s)) = tweens (step x s) @ b"
    using Cons by blast
  show ?case by (simp add: a b)
qed

section \<open>Properties of every call of the body\<close>

lemmas section_defs = hero_title_def hero_subtitle_def hero_buttons_def services_def
  projects_def tech_def about_def contact_def service_hover_def querySelectorAll_on_def
  querySelector_on_def children_on_def contact_entrances_def

lemmas tween_defs = gsap_to_def gsap_fromTo_def gsap_set_def tl_fromTo_def badge_enter_def
  badge_leave_def icon_enter_def icon_leave_def social_enter_def social_leave_def
  input_focus_def input_blur_def card_enter_def card_leave_def wave_def

lemmas loop_defs = project_card_def tech_badge_def tech_stat_def about_icon_def
  about_stat_def social_button_def form_input_def service_card_def counter_eq

lemma sections_all:
  assumes "\<And>x. list_all P (calls_of (hero_title x))"
    and "\<And>x. list_all P (calls_of (hero_subtitle x))"
    and "\<And>x. list_all P (calls_of (hero_buttons x))"
    and "\<And>x. list_all P (calls_of (services x))"
    and "\<And>x. list_all P (calls_of (projects x))"
    and "\<And>x. list_all P (calls_of (tech ev x))"
    and "\<And>x. list_all P (calls_of (about x))"
    and "\<And>x. list_all P (calls_of (contact ev x))"
    and "\<And>x. list_all P (calls_of (service_hover x))"
  shows "list_all P (calls_of (body ev p))"
  by (simp add: body_eq assms)

lemma plain_loops:
  "list_all plain_handlers (calls_of (project_card x))"
  "list_all plain_handlers (calls_of (tech_badge ev y))"
  "list_all plain_handlers (calls_of (tech_stat x))"
  "list_all plain_handlers (calls_of (about_icon x))"
  "list_all plain_handlers (calls_of (about_stat x))"
  "list_all plain_handlers (calls_of (social_button ev y))"
  "list_all plain_handlers (calls_of (form_input z))"
  "list_all plain_handlers (calls_of (service_card z))"
  by (cases x; cases y;
      simp add: loop_defs plain_handlers_def plain_to_def tween_defs split: option.split)+

lemma plain_body: "list_all plain_handlers (calls_of (body ev p))"
  by (rule sections_all)
    (simp_all add: section_defs for_each_ok ok_bodies andthen_ok list_all_loop plain_loops
        plain_handlers_def split: option.split)

lemma reverse_loops:
  "list_all plays_and_reverses (calls_of (project_card x))"
  "list_all plays_and_reverses (calls_of (tech_badge ev y))"
  "list_all plays_and_reverses (calls_of (tech_stat x))"
  "list_all plays_and_reverses (calls_of (about_icon x))"
  "list_all plays_and_reverses (calls_of (about_stat x))"
  "list_all plays_and_reverses (calls_of (social_button ev y))"
  "list_all plays_and_reverses (calls_of (form_input z))"
  "list_all plays_and_reverses (calls_of (service_card z))"
  by (cases x; cases y;
      simp add: loop_defs plays_and_reverses_def play_reverse_def tween_defs
        split: option.split)+

lemma reverse_body: "list_all plays_and_reverses (calls_of (body ev p))"
  by (rule sections_all)
    (simp_all add: section_defs for_each_ok ok_bodies andthen_ok list_all_loop reverse_loops
        plays_and_reverses_def play_reverse_def tween_defs split: option.split)

lemma stagger_loops:
  "list_all staggers_as_written (calls_of (project_card x))"
  "list_all staggers_as_written (calls_of (tech_badge ev y))"
  "list_all staggers_as_written (calls_of (tech_stat x))"
  "list_all staggers_as_written (calls_of (about_icon x))"
  "list_all staggers_as_written (calls_of (about_stat x))"
  "list_all staggers_as_written (calls_of (social_button ev y))"
  "list_all staggers_as_written (calls_of (form_input z))"
  "list_all staggers_as_written (calls_of (service_card z))"
  by (cases x; cases y;
      simp add: loop_defs staggers_as_written_def tween_defs split: option.split)+

lemma stagger_body: "list_all staggers_as_written (calls_of (body ev p))"
  by (rule sections_all)
    (simp_all add: section_defs for_each_ok ok_bodies andthen_ok list_all_loop stagger_loops
        staggers_as_written_def tween_defs split: option.split)

section \<open>The rendered page: its listeners and counts\<close>

lemmas page_defs = portfolio_page_def portfolio_root_def hero_section_def
  services_section_def projects_section_def tech_section_def about_section_def
  contact_section_def querySelectorAll_def querySelector_def

lemma portfolio_listeners:
  "concat (map listening (calls_of (body ev portfolio_page))) =
     concat (map (\<lambda>i.
        [\<lparr>l_target = i, l_event = ''mouseenter'',
          l_handler = [badge_enter (Node i ''div'' [''tech-badge''] [] [])]\<rparr>,
         \<lparr>l_target = i, l_event = ''mouseleave'',
          l_handler = [badge_leave (Node i ''div'' [''tech-badge''] [] [])]\<rparr>])
        [31, 32, 33, 34, 35, 36, 37, 38, 39, 40, 41, 42]) @
     concat (map (\<lambda>i.
        [\<lparr>l_target = i, l_event = ''mouseenter'',
          l_handler = [icon_enter (Node i ''div'' [''tech-icon''] [] [])]\<rparr>,
         \<lparr>l_target = i, l_event = ''mouseleave'',
          l_handler = [icon_leave (Node i ''div'' [''tech-icon''] [] [])]\<rparr>])
        [71, 72, 73, 74, 75, 76]) @
     concat (map (\<lambda>i.
        [\<lparr>l_target = i, l_event = ''mouseenter'',
          l_handler = [social_enter (Node i ''button'' [''social-btn''] [] [])]\<rparr>,
         \<lparr>l_target = i, l_event = ''mouseleave'',
          l_handler = [social_leave (Node i ''button'' [''social-btn''] [] [])]\<rparr>])
        [85, 86, 87]) @
     concat (map (\<lambda>(i, t).
        [\<lparr>l_target = i, l_event = ''focus'',
          l_handler = [input_focus (Node i t [''form-input''] [] [])]\<rparr>,
         \<lparr>l_target = i, l_event = ''blur'',
          l_handler = [input_blur (Node i t [''form-input''] [] [])]\<rparr>])
        [(89, ''input''), (90, ''input''), (91, ''input''), (92, ''textarea'')]) @
     concat (map (\<lambda>(i, j).
        [\<lparr>l_target = i, l_event = ''mouseenter'',
          l_handler = card_enter
            (Node i ''div'' [''service-card''] [] [Node j ''div'' [''service-icon''] [] []])
            (Some (Node j ''div'' [''service-icon''] [] []))\<rparr>,
         \<lparr>l_target = i, l_event = ''mouseleave'',
          l_handler = card_leave
            (Node i ''div'' [''service-card''] [] [Node j ''div'' [''service-icon''] [] []])
            (Some (Node j ''div'' [''service-icon''] [] []))\<rparr>])
        [(11, 14), (12, 15), (13, 16)])"
  by (simp add: body_eq section_defs loop_defs page_defs for_each_ok ok_bodies andthen_ok)

lemma portfolio_counts:
  "length (concat (map animation (calls_of (body ev portfolio_page)))) = 44 \<and>
   length (concat (map standalone (calls_of (body ev portfolio_page)))) = 1"
  by (simp add: body_eq section_defs loop_defs page_defs for_each_ok ok_bodies andthen_ok)

section \<open>Missing targets\<close>

lemma qsa_leaf: "querySelectorAll (Node i t c x []) sel = []"
  by (simp add: querySelectorAll_def)

lemma partial_refs:
  "titleRef partial_page = None"
  "techRef partial_page = None"
  "servicesRef partial_page = Some (Node 10 ''section'' [] [] [])"
  "projectsRef partial_page = Some (Node 20 ''section'' [] [] [])"
  "contactRef partial_page = Some (Node 80 ''section'' [] [] [])"
  by (simp_all add: partial_page_def portfolio_page_def)

lemma empty_refs:
  "titleRef empty_page = None" "subtitleRef empty_page = None" "buttonsRef empty_page = None"
  "servicesRef empty_page = None" "projectsRef empty_page = None" "techRef empty_page = None"
  "aboutRef empty_page = None" "contactRef empty_page = None"
  "querySelectorAll (document empty_page) (ByClass ''service-card'') = []"
  by (simp_all add: empty_page_def qsa_leaf)

lemma aims_loop:
  "map aims (concat (map g xs)) = concat (map (\<lambda>x. map aims (g x)) xs)"
  by (induction xs) simp_all

lemma over_enumerate:
  "concat (map (\<lambda>x. g (snd x)) (enumerate n xs)) = concat (map g xs)"
  by (induction xs arbitrary: n) simp_all

lemma aims_loops:
  "map aims (calls_of (project_card x)) = [{nid (snd x)}]"
  "map aims (calls_of (tech_badge ev x)) = [{nid (snd x)}, {nid (snd x)}, {nid (snd x)}]"
  "map aims (calls_of (tech_stat x)) =
     {nid (snd x)} # (case querySelector (snd x) DivFirstChild of None \<Rightarrow> []
                      | Some n \<Rightarrow> [{nid n}])"
  "map aims (calls_of (about_icon x)) = [{nid (snd x)}, {nid (snd x)}]"
  "map aims (calls_of (about_stat x)) =
     {nid (snd x)} # (case querySelector (snd x) (ByClass ''stat-number'') of None \<Rightarrow> []
                      | Some n \<Rightarrow> [{nid n}])"
  "map aims (calls_of (social_button ev x)) =
     [{nid (snd x)}, {nid (snd x)}, {nid (snd x)}, {nid (snd x)}]"
  "map aims (calls_of (form_input z)) = [{nid z}, {nid z}]"
  "map aims (calls_of (service_card z)) =
     [insert (nid z) (set (target_of (querySelector z (ByClass ''service-icon'')))),
      insert (nid z) (set (target_of (querySelector z (ByClass ''service-icon''))))]"
  by (cases x;
      simp add: loop_defs aims_def tween_defs target_of_def split: option.split)+

lemma aims_hero_title: "titleRef p = Some r \<Longrightarrow> map aims (calls_of (hero_title p)) = [{nid r}, {nid r}]"
  by (simp add: hero_title_def aims_def tween_defs target_of_def)

lemma aims_hero_subtitle: "subtitleRef p = Some r \<Longrightarrow> map aims (calls_of (hero_subtitle p)) = [{nid r}]"
  by (simp add: hero_subtitle_def aims_def tween_defs target_of_def)

lemma aims_hero_buttons:
  "buttonsRef p = Some r \<Longrightarrow> map aims (calls_of (hero_buttons p)) = [nid ` set (kids r)]"
  by (simp add: hero_buttons_def children_on_def aims_def tween_defs)

lemma aims_services:
  "servicesRef p = Some r \<Longrightarrow>
   map aims (calls_of (services p)) = [nid ` set (querySelectorAll r (ByClass ''service-card''))]"
  by (simp add: services_def querySelectorAll_on_def aims_def tween_defs)

lemma aims_projects:
  "projectsRef p = Some r \<Longrightarrow>
   map aims (calls_of (projects p)) =
     map (\<lambda>n. {nid n}) (querySelectorAll r (ByClass ''project-card''))"
proof -
  assume r: "projectsRef p = Some r"
  have "concat (map (\<lambda>x. [{nid (snd x)}]) (enumerate 0 (querySelectorAll r (ByClass ''project-card'')))) =
        concat (map (\<lambda>n. [{nid n}]) (querySelectorAll r (ByClass ''project-card'')))"
    by (rule over_enumerate)
  then show ?thesis
    using r
    by (simp add: projects_def querySelectorAll_on_def for_each_ok ok_bodies aims_loop
      aims_loops concat_map_singleton)
qed

lemma aims_tech:
  "techRef p = Some r \<Longrightarrow>
   map aims (calls_of (tech ev p)) =
     [nid ` set (querySelectorAll r (ByClass ''tech-badge''))] @
     concat (map (\<lambda>b. [{nid b}, {nid b}, {nid b}]) (querySelectorAll r (ByClass ''tech-badge''))) @
     [nid ` set (querySelectorAll r (ByClass ''tech-badge''))] @
     concat (map (\<lambda>st. {nid st} # (case querySelector st DivFirstChild of None \<Rightarrow> []
                                  | Some n \<Rightarrow> [{nid n}]))
       (querySelectorAll r (ByClass ''tech-stat'')))"
  by (simp add: tech_def querySelectorAll_on_def for_each_ok ok_bodies andthen_ok aims_loop
      aims_loops
      over_enumerate [of "\<lambda>b. [{nid b}, {nid b}, {nid b}]"]
      over_enumerate [of "\<lambda>st. {nid st} # (case querySelector st DivFirstChild of None \<Rightarrow> []
                                  | Some n \<Rightarrow> [{nid n}])"])
    (simp add: aims_def tween_defs)

lemma aims_about:
  "aboutRef p = Some r \<Longrightarrow>
   map aims (calls_of (about p)) =
     [nid ` set (querySelectorAll r (ByClass ''tech-icon''))] @
     concat (map (\<lambda>i. [{nid i}, {nid i}]) (querySelectorAll r (ByClass ''tech-icon''))) @
     concat (map (\<lambda>st. {nid st} # (case querySelector st (ByClass ''stat-number'') of None \<Rightarrow> []
                                  | Some n \<Rightarrow> [{nid n}]))
       (querySelectorAll r (ByClass ''stat-item'')))"
  by (simp add: about_def querySelectorAll_on_def querySelector_on_def for_each_ok ok_bodies
      andthen_ok aims_loop aims_loops
      over_enumerate [of "\<lambda>i. [{nid i}, {nid i}]"]
      over_enumerate [of "\<lambda>st. {nid st} # (case querySelector st (ByClass ''stat-number'') of
                                    None \<Rightarrow> [] | Some n \<Rightarrow> [{nid n}])"])
    (simp add: aims_def tween_defs)

lemma aims_contact:
  "contactRef p = Some r \<Longrightarrow>
   map aims (calls_of (contact ev p)) =
     [set (target_of (querySelector r (ByClass ''contact-info''))),
      set (target_of (querySelector r (ByClass ''contact-form''))),
      nid ` set (querySelectorAll r (ByClass ''contact-item'')),
      nid ` set (querySelectorAll r (ByClass ''form-input''))] @
     concat (map (\<lambda>b. [{nid b}, {nid b}, {nid b}, {nid b}])
       (querySelectorAll r (ByClass ''social-btn''))) @
     concat (map (\<lambda>i. [{nid i}, {nid i}]) (querySelectorAll r (ByClass ''form-input'')))"
  by (simp add: contact_def querySelectorAll_on_def querySelector_on_def for_each_ok ok_bodies
      andthen_ok aims_loop aims_loops contact_entrances_def
      over_enumerate [of "\<lambda>b. [{nid b}, {nid b}, {nid b}, {nid b}]"])
    (simp add: aims_def tween_defs)

lemma aims_service_hover:
  "map aims (calls_of (service_hover p)) =
     concat (map (\<lambda>c.
         [insert (nid c) (set (target_of (querySelector c (ByClass ''service-icon'')))),
          insert (nid c) (set (target_of (querySelector c (ByClass ''service-icon''))))])
       (querySelectorAll (document p) (ByClass ''service-card'')))"
  by (simp add: service_hover_def for_each_ok ok_bodies aims_loop aims_loops)

lemma untouched:
  "hero_subtitle (p\<lparr>titleRef := x\<rparr>) = hero_subtitle p"
  "hero_buttons (p\<lparr>titleRef := x\<rparr>) = hero_buttons p"
  "services (p\<lparr>titleRef := x\<rparr>) = services p"
  "projects (p\<lparr>titleRef := x\<rparr>) = projects p"
  "tech ev (p\<lparr>titleRef := x\<rparr>) = tech ev p"
  "about (p\<lparr>titleRef := x\<rparr>) = about p"
  "contact ev (p\<lparr>titleRef := x\<rparr>) = contact ev p"
  "service_hover (p\<lparr>titleRef := x\<rparr>) = service_hover p"
  "hero_title (p\<lparr>subtitleRef := x\<rparr>) = hero_title p"
  "hero_buttons (p\<lparr>subtitleRef := x\<rparr>) = hero_buttons p"
  "services (p\<lparr>subtitleRef := x\<rparr>) = services p"
  "projects (p\<lparr>subtitleRef := x\<rparr>) = projects p"
  "tech ev (p\<lparr>subtitleRef := x\<rparr>) = tech ev p"
  "about (p\<lparr>subtitleRef := x\<rparr>) = about p"
  "contact ev (p\<lparr>subtitleRef := x\<rparr>) = contact ev p"
  "service_hover (p\<lparr>subtitleRef := x\<rparr>) = service_hover p"
  "hero_title (p\<lparr>buttonsRef := x\<rparr>) = hero_title p"
  "hero_subtitle (p\<lparr>buttonsRef := x\<rparr>) = hero_subtitle p"
  "services (p\<lparr>buttonsRef := x\<rparr>) = services p"
  "projects (p\<lparr>buttonsRef := x\<rparr>) = projects p"
  "tech ev (p\<lparr>buttonsRef := x\<rparr>) = tech ev p"
  "about (p\<lparr>buttonsRef := x\<rparr>) = about p"
  "contact ev (p\<lparr>buttonsRef := x\<rparr>) = contact ev p"
  "service_hover (p\<lparr>buttonsRef := x\<rparr>) = service_hover p"
  "hero_title (p\<lparr>servicesRef := x\<rparr>) = hero_title p"
  "hero_subtitle (p\<lparr>servicesRef := x\<rparr>) = hero_subtitle p"
  "hero_buttons (p\<lparr>servicesRef := x\<rparr>) = hero_buttons p"
  "projects (p\<lparr>servicesRef := x\<rparr>) = projects p"
  "tech ev (p\<lparr>servicesRef := x\<rparr>) = tech ev p"
  "about (p\<lparr>servicesRef := x\<rparr>) = about p"
  "contact ev (p\<lparr>servicesRef := x\<rparr>) = contact ev p"
  "service_hover (p\<lparr>servicesRef := x\<rparr>) = service_hover p"
  "hero_title (p\<lparr>projectsRef := x\<rparr>) = hero_title p"
  "hero_subtitle (p\<lparr>projectsRef := x\<rparr>) = hero_subtitle p"
  "hero_buttons (p\<lparr>projectsRef := x\<rparr>) = hero_buttons p"
  "services (p\<lparr>projectsRef := x\<rparr>) = services p"
  "tech ev (p\<lparr>projectsRef := x\<rparr>) = tech ev p"
  "about (p\<lparr>projectsRef := x\<rparr>) = about p"
  "contact ev (p\<lparr>projectsRef := x\<rparr>) = contact ev p"
  "service_hover (p\<lparr>projectsRef := x\<rparr>) = service_hover p"
  "hero_title (p\<lparr>techRef := x\<rparr>) = hero_title p"
  "hero_subtitle (p\<lparr>techRef := x\<rparr>) = hero_subtitle p"
  "hero_buttons (p\<lparr>techRef := x\<rparr>) = hero_buttons p"
  "services (p\<lparr>techRef := x\<rparr>) = services p"
  "projects (p\<lparr>techRef := x\<rparr>) = projects p"
  "about (p\<lparr>techRef := x\<rparr>) = about p"
  "contact ev (p\<lparr>techRef := x\<rparr>) = contact ev p"
  "service_hover (p\<lparr>techRef := x\<rparr>) = service_hover p"
  "hero_title (p\<lparr>aboutRef := x\<rparr>) = hero_title p"
  "hero_subtitle (p\<lparr>aboutRef := x\<rparr>) = hero_subtitle p"
  "hero_buttons (p\<lparr>aboutRef := x\<rparr>) = hero_buttons p"
  "services (p\<lparr>aboutRef := x\<rparr>) = services p"
  "projects (p\<lparr>aboutRef := x\<rparr>) = projects p"
  "tech ev (p\<lparr>aboutRef := x\<rparr>) = tech ev p"
  "contact ev (p\<lparr>aboutRef := x\<rparr>) = contact ev p"
  "service_hover (p\<lparr>aboutRef := x\<rparr>) = service_hover p"
  "hero_title (p\<lparr>contactRef := x\<rparr>) = hero_title p"
  "hero_subtitle (p\<lparr>contactRef := x\<rparr>) = hero_subtitle p"
  "hero_buttons (p\<lparr>contactRef := x\<rparr>) = hero_buttons p"
  "services (p\<lparr>contactRef := x\<rparr>) = services p"
  "projects (p\<lparr>contactRef := x\<rparr>) = projects p"
  "tech ev (p\<lparr>contactRef := x\<rparr>) = tech ev p"
  "about (p\<lparr>contactRef := x\<rparr>) = about p"
  "service_hover (p\<lparr>contactRef := x\<rparr>) = service_hover p"
  by (simp_all add: section_defs)

lemma querySelector_leaf: "querySelector (Node i t c x []) sel = None"
  by (simp add: querySelector_def querySelectorAll_def)

lemma partial_queries:
  "subtitleRef partial_page = Some (Node 5 ''p'' [] [] [])"
  "buttonsRef partial_page = Some (Node 6 ''div'' []  []
          [Node 7 ''button'' [] ''Get Started'' [],
           Node 8 ''button'' [] ''View Portfolio'' []])"
  "aboutRef partial_page = Some about_section"
  "querySelectorAll about_section (ByClass ''tech-icon'') =
     [Node 71 ''div'' [''tech-icon''] [] [], Node 72 ''div'' [''tech-icon''] [] [],
      Node 73 ''div'' [''tech-icon''] [] [], Node 74 ''div'' [''tech-icon''] [] [],
      Node 75 ''div'' [''tech-icon''] [] [], Node 76 ''div'' [''tech-icon''] [] []]"
  "querySelectorAll about_section (ByClass ''stat-item'') =
     [Node 61 ''div'' [''stat-item''] []
        [Node 64 ''div'' [''stat-number''] ''50+'' [],
         Node 67 ''div'' [''stat-label''] ''Projects Completed'' []],
      Node 62 ''div'' [''stat-item''] []
        [Node 65 ''div'' [''stat-number''] ''5+'' [],
         Node 68 ''div'' [''stat-label''] ''Years Experience'' []],
      Node 63 ''div'' [''stat-item''] []
        [Node 66 ''div'' [''stat-number''] ''100%'' [],
         Node 69 ''div'' [''stat-label''] ''Client Satisfaction'' []]]"
  "querySelector (Node 61 ''div'' [''stat-item''] []
        [Node 64 ''div'' [''stat-number''] ''50+'' [],
         Node 67 ''div'' [''stat-label''] ''Projects Completed'' []]) (ByClass ''stat-number'') =
     Some (Node 64 ''div'' [''stat-number''] ''50+'' [])"
  "querySelector (Node 62 ''div'' [''stat-item''] []
        [Node 65 ''div'' [''stat-number''] ''5+'' [],
         Node 68 ''div'' [''stat-label''] ''Years Experience'' []]) (ByClass ''stat-number'') =
     Some (Node 65 ''div'' [''stat-number''] ''5+'' [])"
  "querySelector (Node 63 ''div'' [''stat-item''] []
        [Node 66 ''div'' [''stat-number''] ''100%'' [],
         Node 69 ''div'' [''stat-label''] ''Client Satisfaction'' []]) (ByClass ''stat-number'') =
     Some (Node 66 ''div'' [''stat-number''] ''100%'' [])"
  "querySelectorAll (document partial_page) (ByClass ''service-card'') =
     [Node 11 ''div'' [''service-card''] [] [Node 14 ''div'' [''service-icon''] [] []],
      Node 12 ''div'' [''service-card''] [] [Node 15 ''div'' [''service-icon''] [] []],
      Node 13 ''div'' [''service-card''] [] [Node 16 ''div'' [''service-icon''] [] []]]"
  "querySelector (Node 11 ''div'' [''service-card''] [] [Node 14 ''div'' [''service-icon''] [] []])
     (ByClass ''service-icon'') = Some (Node 14 ''div'' [''service-icon''] [] [])"
  "querySelector (Node 12 ''div'' [''service-card''] [] [Node 15 ''div'' [''service-icon''] [] []])
     (ByClass ''service-icon'') = Some (Node 15 ''div'' [''service-icon''] [] [])"
  "querySelector (Node 13 ''div'' [''service-card''] [] [Node 16 ''div'' [''service-icon''] [] []])
     (ByClass ''service-icon'') = Some (Node 16 ''div'' [''service-icon''] [] [])"
  by (simp_all add: partial_page_def page_defs)


lemma partial_counts:
  "length (concat (map animation (calls_of (body ev partial_page)))) = 14 \<and>
   length (concat (map listening (calls_of (body ev partial_page)))) = 18 \<and>
   concat (map standalone (calls_of (body ev partial_page))) = []"
  by (simp add: body_eq section_defs loop_defs partial_refs partial_queries qsa_leaf
    querySelector_leaf for_each_ok ok_bodies andthen_ok)

text \<open>
  Claim C7, as stated, fails for a selector that finds nothing. On the page whose
  services section is mounted without any card, \<open>querySelectorAll(".service-card")\<close>
  is empty, and the rule of the service cards is not skipped: \<open>gsap.fromTo\<close> is called
  with the empty list, and the engine holds the tween, with no target and with its
  scroll trigger on the section. On the page on which nothing is mounted the engine
  holds nothing.
\<close>

theorem rule_without_targets_is_registered:
  "servicesRef no_cards_page = Some (Node 10 ''section'' [] [] []) \<and>
   querySelectorAll (Node 10 ''section'' [] [] []) (ByClass ''service-card'') = [] \<and>
   tweens (mount sample_env no_cards_page fresh) =
     [\<lparr>owner = Some 0, born = 0,
       the_tween = (gsap_fromTo []
           [(''opacity'', Num 0), (''y'', Num 80), (''rotationX'', Num 45),
            (''transformPerspective'', Num 1000)]
           [(''opacity'', Num 1), (''y'', Num 0), (''rotationX'', Num 0)])
         \<lparr>duration := 1, stagger := Some (Each 0.2), ease := Some ''power3.out'',
          scrollTrigger := Some (play_reverse (Some 10) ''top 80%'' (Some ''bottom 20%''))\<rparr>\<rparr>] \<and>
   active_observers (mount sample_env no_cards_page fresh) = 1 \<and>
   tweens (mount sample_env empty_page fresh) = [] \<and>
   active_observers (mount sample_env empty_page fresh) = 0"
  by (simp add: mount_def initialize_eq body_eq section_defs no_cards_page_def empty_page_def
    qsa_leaf fresh_def started_def active_observers_def tween_defs)

text \<open>
  Claim C7, amended. Whatever the page lacks, the body of the effect raises no error,
  and \<open>initialize\<close> returns, having registered under a new context every call of the
  body and nothing else. The calls of the body are the calls of its nine parts, one
  after the other. A part whose ref is \<open>null\<close> makes no call, and taking a ref away
  takes away the calls of its part only: the calls of the other parts are registered
  as they are when nothing is missing. A part whose ref is mounted makes its calls on
  what its selectors find: a loop over the matches makes its calls for each match, so
  none when there is no match, and a tween of the matches is created with the matches
  as targets, so with no target when there is no match (it is registered all the same,
  the service cards' tween together with its scroll trigger, and animates nothing). Every
  element that a call names is an element of the page.
\<close>

theorem missing_targets_raise_no_error:
  "ok (body ev p) \<and>
   body ev p =
     Inr (calls_of (hero_title p) @ calls_of (hero_subtitle p) @
          calls_of (hero_buttons p) @ calls_of (services p) @ calls_of (projects p) @
          calls_of (tech ev p) @ calls_of (about p) @ calls_of (contact ev p) @
          calls_of (service_hover p)) \<and>
   initialize ev p s =
     Inr (next_ctx s,
       s\<lparr>next_ctx := Suc (next_ctx s),
         tweens := tweens s @
           map (started (Some (next_ctx s)) s) (concat (map animation (calls_of (body ev p)))),
         observers := observers s @
           map (Pair (Some (next_ctx s))) (concat (map standalone (calls_of (body ev p)))),
         listeners := listeners s @ concat (map listening (calls_of (body ev p)))\<rparr>) \<and>
   (titleRef p = None \<longrightarrow> hero_title p = Inr []) \<and>
   (subtitleRef p = None \<longrightarrow> hero_subtitle p = Inr []) \<and>
   (buttonsRef p = None \<longrightarrow> hero_buttons p = Inr []) \<and>
   (servicesRef p = None \<longrightarrow> services p = Inr []) \<and>
   (projectsRef p = None \<longrightarrow> projects p = Inr []) \<and>
   (techRef p = None \<longrightarrow> tech ev p = Inr []) \<and>
   (aboutRef p = None \<longrightarrow> about p = Inr []) \<and>
   (contactRef p = None \<longrightarrow> contact ev p = Inr []) \<and>
   body ev (p\<lparr>titleRef := None\<rparr>) =
     Inr (calls_of (hero_subtitle p) @ calls_of (hero_buttons p) @ calls_of (services p) @
          calls_of (projects p) @ calls_of (tech ev p) @ calls_of (about p) @
          calls_of (contact ev p) @ calls_of (service_hover p)) \<and>
   body ev (p\<lparr>subtitleRef := None\<rparr>) =
     Inr (calls_of (hero_title p) @ calls_of (hero_buttons p) @ calls_of (services p) @
          calls_of (projects p) @ calls_of (tech ev p) @ calls_of (about p) @
          calls_of (contact ev p) @ calls_of (service_hover p)) \<and>
   body ev (p\<lparr>buttonsRef := None\<rparr>) =
     Inr (calls_of (hero_title p) @ calls_of (hero_subtitle p) @ calls_of (services p) @
          calls_of (projects p) @ calls_of (tech ev p) @ calls_of (about p) @
          calls_of (contact ev p) @ calls_of (service_hover p)) \<and>
   body ev (p\<lparr>servicesRef := None\<rparr>) =
     Inr (calls_of (hero_title p) @ calls_of (hero_subtitle p) @
          calls_of (hero_buttons p) @ calls_of (projects p) @ calls_of (tech ev p) @
          calls_of (about p) @ calls_of (contact ev p) @ calls_of (service_hover p)) \<and>
   body ev (p\<lparr>projectsRef := None\<rparr>) =
     Inr (calls_of (hero_title p) @ calls_of (hero_subtitle p) @
          calls_of (hero_buttons p) @ calls_of (services p) @ calls_of (tech ev p) @
          calls_of (about p) @ calls_of (contact ev p) @ calls_of (service_hover p)) \<and>
   body ev (p\<lparr>techRef := None\<rparr>) =
     Inr (calls_of (hero_title p) @ calls_of (hero_subtitle p) @
          calls_of (hero_buttons p) @ calls_of (services p) @ calls_of (projects p) @
          calls_of (about p) @ calls_of (contact ev p) @ calls_of (service_hover p)) \<and>
   body ev (p\<lparr>aboutRef := None\<rparr>) =
     Inr (calls_of (hero_title p) @ calls_of (hero_subtitle p) @
          calls_of (hero_buttons p) @ calls_of (services p) @ calls_of (projects p) @
          calls_of (tech ev p) @ calls_of (contact ev p) @ calls_of (service_hover p)) \<and>
   body ev (p\<lparr>contactRef := None\<rparr>) =
     Inr (calls_of (hero_title p) @ calls_of (hero_subtitle p) @
          calls_of (hero_buttons p) @ calls_of (services p) @ calls_of (projects p) @
          calls_of (tech ev p) @ calls_of (about p) @ calls_of (service_hover p)) \<and>
   (\<forall>r. titleRef p = Some r \<longrightarrow> map aims (calls_of (hero_title p)) = [{nid r}, {nid r}]) \<and>
   (\<forall>r. subtitleRef p = Some r \<longrightarrow> map aims (calls_of (hero_subtitle p)) = [{nid r}]) \<and>
   (\<forall>r. buttonsRef p = Some r \<longrightarrow>
        map aims (calls_of (hero_buttons p)) = [nid ` set (kids r)]) \<and>
   (\<forall>r. servicesRef p = Some r \<longrightarrow>
        (\<exists>tw. services p = Inr [Animate tw] \<and>
              targets tw = map nid (querySelectorAll r (ByClass ''service-card'')) \<and>
              scrollTrigger tw =
                Some (play_reverse (Some (nid r)) ''top 80%'' (Some ''bottom 20%'')))) \<and>
   (\<forall>r. projectsRef p = Some r \<longrightarrow>
        map aims (calls_of (projects p)) =
          map (\<lambda>n. {nid n}) (querySelectorAll r (ByClass ''project-card''))) \<and>
   (\<forall>r. techRef p = Some r \<longrightarrow>
        map aims (calls_of (tech ev p)) =
          [nid ` set (querySelectorAll r (ByClass ''tech-badge''))] @
          concat (map (\<lambda>b. [{nid b}, {nid b}, {nid b}])
            (querySelectorAll r (ByClass ''tech-badge''))) @
          [nid ` set (querySelectorAll r (ByClass ''tech-badge''))] @
          concat (map (\<lambda>st. {nid st} #
                (case querySelector st DivFirstChild of None \<Rightarrow> [] | Some n \<Rightarrow> [{nid n}]))
            (querySelectorAll r (ByClass ''tech-stat'')))) \<and>
   (\<forall>r. aboutRef p = Some r \<longrightarrow>
        map aims (calls_of (about p)) =
          [nid ` set (querySelectorAll r (ByClass ''tech-icon''))] @
          concat (map (\<lambda>i. [{nid i}, {nid i}]) (querySelectorAll r (ByClass ''tech-icon''))) @
          concat (map (\<lambda>st. {nid st} #
                (case querySelector st (ByClass ''stat-number'') of
                   None \<Rightarrow> [] | Some n \<Rightarrow> [{nid n}]))
            (querySelectorAll r (ByClass ''stat-item'')))) \<and>
   (\<forall>r. contactRef p = Some r \<longrightarrow>
        map aims (calls_of (contact ev p)) =
          [set (target_of (querySelector r (ByClass ''contact-info''))),
           set (target_of (querySelector r (ByClass ''contact-form''))),
           nid ` set (querySelectorAll r (ByClass ''contact-item'')),
           nid ` set (querySelectorAll r (ByClass ''form-input''))] @
          concat (map (\<lambda>b. [{nid b}, {nid b}, {nid b}, {nid b}])
            (querySelectorAll r (ByClass ''social-btn''))) @
          concat (map (\<lambda>i. [{nid i}, {nid i}])
            (querySelectorAll r (ByClass ''form-input'')))) \<and>
   map aims (calls_of (service_hover p)) =
     concat (map (\<lambda>c.
         [insert (nid c) (set (target_of (querySelector c (ByClass ''service-icon'')))),
          insert (nid c) (set (target_of (querySelector c (ByClass ''service-icon''))))])
       (querySelectorAll (document p) (ByClass ''service-card''))) \<and>
   (\<forall>tw sc. targets tw = [] \<longrightarrow> finish tw sc = sc) \<and>
   list_all (real_targets p) (calls_of (body ev p))"
proof -
  have sv: "\<exists>tw. services p = Inr [Animate tw] \<and>
              targets tw = map nid (querySelectorAll r (ByClass ''service-card'')) \<and>
              scrollTrigger tw =
                Some (play_reverse (Some (nid r)) ''top 80%'' (Some ''bottom 20%''))"
    if "servicesRef p = Some r" for r
    using that by (simp add: services_def querySelectorAll_on_def tween_defs)
  have fin: "finish tw sc = sc" if "targets tw = []" for tw sc
    using that by (simp add: finish_def)
  show ?thesis
    apply (intro conjI allI impI)
    apply (simp_all add: initialize_eq skipped untouched aims_hero_title
      aims_hero_subtitle aims_hero_buttons aims_projects aims_tech aims_about aims_contact
      aims_service_hover sv fin body_eq [of ev] real_hero_title real_hero_subtitle
      real_hero_buttons real_services real_projects real_tech real_about real_contact
      real_service_hover)
    done
qed

text \<open>
  On the page on which nothing is mounted the body makes no call. On the page without
  title and technologies section and with empty services, projects and contact
  sections: the two parts are skipped, the tweens of the empty sections have no
  target, and the rest is registered on the elements that are there, 14 tweens and 18
  listeners in all.
\<close>

theorem missing_targets_raise_no_error_witness:
  "body sample_env empty_page = Inr [] \<and>
   hero_title partial_page = Inr [] \<and> tech sample_env partial_page = Inr [] \<and>
   map aims (calls_of (hero_subtitle partial_page)) = [{5}] \<and>
   map aims (calls_of (hero_buttons partial_page)) = [{7, 8}] \<and>
   (\<exists>tw. services partial_page = Inr [Animate tw] \<and> targets tw = [] \<and>
         scrollTrigger tw = Some (play_reverse (Some 10) ''top 80%'' (Some ''bottom 20%''))) \<and>
   map aims (calls_of (projects partial_page)) = [] \<and>
   map aims (calls_of (about partial_page)) =
     [{71, 72, 73, 74, 75, 76},
      {71}, {71}, {72}, {72}, {73}, {73}, {74}, {74}, {75}, {75}, {76}, {76},
      {61}, {64}, {62}, {65}, {63}, {66}] \<and>
   map aims (calls_of (contact sample_env partial_page)) = [{}, {}, {}, {}] \<and>
   map aims (calls_of (service_hover partial_page)) =
     [{11, 14}, {11, 14}, {12, 15}, {12, 15}, {13, 16}, {13, 16}] \<and>
   body sample_env partial_page =
     Inr (calls_of (hero_subtitle partial_page) @ calls_of (hero_buttons partial_page) @
          calls_of (services partial_page) @
          calls_of (about partial_page) @ calls_of (contact sample_env partial_page) @
          calls_of (service_hover partial_page)) \<and>
   (\<exists>s. initialize sample_env partial_page fresh = Inr (0, s) \<and>
        length (tweens s) = 14 \<and> length (listeners s) = 18 \<and> observers s = []) \<and>
   list_all (real_targets partial_page) (calls_of (body sample_env partial_page))"
proof -
  note e = missing_targets_raise_no_error [of sample_env empty_page fresh]
  note e_body = e [THEN conjunct2, THEN conjunct1]
  note e_null = e [THEN conjunct2, THEN conjunct2, THEN conjunct2, THEN conjunct1] e [THEN conjunct2, THEN conjunct2, THEN conjunct2, THEN conjunct2, THEN conjunct1] e [THEN conjunct2, THEN conjunct2, THEN conjunct2, THEN conjunct2, THEN conjunct2, THEN conjunct1] e [THEN conjunct2, THEN conjunct2, THEN conjunct2, THEN conjunct2, THEN conjunct2, THEN conjunct2, THEN conjunct1] e [THEN conjunct2, THEN conjunct2, THEN conjunct2, THEN conjunct2, THEN conjunct2, THEN conjunct2, THEN conjunct2, THEN conjunct1] e [THEN conjunct2, THEN conjunct2, THEN conjunct2, THEN conjunct2, THEN conjunct2, THEN conjunct2, THEN conjunct2, THEN conjunct2, THEN conjunct1] e [THEN conjunct2, THEN conjunct2, THEN conjunct2, THEN conjunct2, THEN conjunct2, THEN conjunct2, THEN conjunct2, THEN conjunct2, THEN conjunct2, THEN conjunct1] e [THEN conjunct2, THEN conjunct2, THEN conjunct2, THEN conjunct2, THEN conjunct2, THEN conjunct2, THEN conjunct2, THEN conjunct2, THEN conjunct2, THEN conjunct2, THEN conjunct1]
  note e_hover = e [THEN conjunct2, THEN conjunct2, THEN conjunct2, THEN conjunct2, THEN conjunct2, THEN conjunct2, THEN conjunct2, THEN conjunct2, THEN conjunct2, THEN conjunct2, THEN conjunct2, THEN conjunct2, THEN conjunct2, THEN conjunct2, THEN conjunct2, THEN conjunct2, THEN conjunct2, THEN conjunct2, THEN conjunct2, THEN conjunct2, THEN conjunct2, THEN conjunct2, THEN conjunct2, THEN conjunct2, THEN conjunct2, THEN conjunct2, THEN conjunct2, THEN conjunct1]
  have e0: "hero_title empty_page = Inr []" "hero_subtitle empty_page = Inr []"
    "hero_buttons empty_page = Inr []" "services empty_page = Inr []"
    "projects empty_page = Inr []" "tech sample_env empty_page = Inr []"
    "about empty_page = Inr []" "contact sample_env empty_page = Inr []"
    using e_null empty_refs by blast+
  have e1: "calls_of (service_hover empty_page) = []"
    using e_hover by (simp add: empty_refs)
  have a: "body sample_env empty_page = Inr []"
    using e_body e1 by (simp add: e0)
  note t = missing_targets_raise_no_error [of sample_env partial_page fresh]
  note t_body = t [THEN conjunct2, THEN conjunct1]
  note t_init = t [THEN conjunct2, THEN conjunct2, THEN conjunct1]
  note t_title = t [THEN conjunct2, THEN conjunct2, THEN conjunct2, THEN conjunct1]
  note t_tech = t [THEN conjunct2, THEN conjunct2, THEN conjunct2, THEN conjunct2, THEN conjunct2, THEN conjunct2, THEN conjunct2, THEN conjunct2, THEN conjunct1]
  note t_subtitle = t [THEN conjunct2, THEN conjunct2, THEN conjunct2, THEN conjunct2, THEN conjunct2, THEN conjunct2, THEN conjunct2, THEN conjunct2, THEN conjunct2, THEN conjunct2, THEN conjunct2, THEN conjunct2, THEN conjunct2, THEN conjunct2, THEN conjunct2, THEN conjunct2, THEN conjunct2, THEN conjunct2, THEN conjunct2, THEN conjunct2, THEN conjunct1]
  note t_buttons = t [THEN conjunct2, THEN conjunct2, THEN conjunct2, THEN conjunct2, THEN conjunct2, THEN conjunct2, THEN conjunct2, THEN conjunct2, THEN conjunct2, THEN conjunct2, THEN conjunct2, THEN conjunct2, THEN conjunct2, THEN conjunct2, THEN conjunct2, THEN conjunct2, THEN conjunct2, THEN conjunct2, THEN conjunct2, THEN conjunct2, THEN conjunct2, THEN conjunct1]
  note t_services = t [THEN conjunct2, THEN conjunct2, THEN conjunct2, THEN conjunct2, THEN conjunct2, THEN conjunct2, THEN conjunct2, THEN conjunct2, THEN conjunct2, THEN conjunct2, THEN conjunct2, THEN conjunct2, THEN conjunct2, THEN conjunct2, THEN conjunct2, THEN conjunct2, THEN conjunct2, THEN conjunct2, THEN conjunct2, THEN conjunct2, THEN conjunct2, THEN conjunct2, THEN conjunct1]
  note t_projects = t [THEN conjunct2, THEN conjunct2, THEN conjunct2, THEN conjunct2, THEN conjunct2, THEN conjunct2, THEN conjunct2, THEN conjunct2, THEN conjunct2, THEN conjunct2, THEN conjunct2, THEN conjunct2, THEN conjunct2, THEN conjunct2, THEN conjunct2, THEN conjunct2, THEN conjunct2, THEN conjunct2, THEN conjunct2, THEN conjunct2, THEN conjunct2, THEN conjunct2, THEN conjunct2, THEN conjunct1]
  note t_about = t [THEN conjunct2, THEN conjunct2, THEN conjunct2, THEN conjunct2, THEN conjunct2, THEN conjunct2, THEN conjunct2, THEN conjunct2, THEN conjunct2, THEN conjunct2, THEN conjunct2, THEN conjunct2, THEN conjunct2, THEN conjunct2, THEN conjunct2, THEN conjunct2, THEN conjunct2, THEN conjunct2, THEN conjunct2, THEN conjunct2, THEN conjunct2, THEN conjunct2, THEN conjunct2, THEN conjunct2, THEN conjunct2, THEN conjunct1]
  note t_contact = t [THEN conjunct2, THEN conjunct2, THEN conjunct2, THEN conjunct2, THEN conjunct2, THEN conjunct2, THEN conjunct2, THEN conjunct2, THEN conjunct2, THEN conjunct2, THEN conjunct2, THEN conjunct2, THEN conjunct2, THEN conjunct2, THEN conjunct2, THEN conjunct2, THEN conjunct2, THEN conjunct2, THEN conjunct2, THEN conjunct2, THEN conjunct2, THEN conjunct2, THEN conjunct2, THEN conjunct2, THEN conjunct2, THEN conjunct2, THEN conjunct1]
  note t_hover = t [THEN conjunct2, THEN conjunct2, THEN conjunct2, THEN conjunct2, THEN conjunct2, THEN conjunct2, THEN conjunct2, THEN conjunct2, THEN conjunct2, THEN conjunct2, THEN conjunct2, THEN conjunct2, THEN conjunct2, THEN conjunct2, THEN conjunct2, THEN conjunct2, THEN conjunct2, THEN conjunct2, THEN conjunct2, THEN conjunct2, THEN conjunct2, THEN conjunct2, THEN conjunct2, THEN conjunct2, THEN conjunct2, THEN conjunct2, THEN conjunct2, THEN conjunct1]
  note t_real = t [THEN conjunct2, THEN conjunct2, THEN conjunct2, THEN conjunct2, THEN conjunct2, THEN conjunct2, THEN conjunct2, THEN conjunct2, THEN conjunct2, THEN conjunct2, THEN conjunct2, THEN conjunct2, THEN conjunct2, THEN conjunct2, THEN conjunct2, THEN conjunct2, THEN conjunct2, THEN conjunct2, THEN conjunct2, THEN conjunct2, THEN conjunct2, THEN conjunct2, THEN conjunct2, THEN conjunct2, THEN conjunct2, THEN conjunct2, THEN conjunct2, THEN conjunct2, THEN conjunct2]
  have h: "hero_title partial_page = Inr []"
    using t_title partial_refs(1) by blast
  have k: "tech sample_env partial_page = Inr []"
    using t_tech partial_refs(2) by blast
  have b1: "map aims (calls_of (hero_subtitle partial_page)) = [{5}]"
    using t_subtitle partial_queries(1) by simp
  have b2: "map aims (calls_of (hero_buttons partial_page)) = [{7, 8}]"
    using t_buttons partial_queries(2) by simp
  have b3: "\<exists>tw. services partial_page = Inr [Animate tw] \<and> targets tw = [] \<and>
         scrollTrigger tw = Some (play_reverse (Some 10) ''top 80%'' (Some ''bottom 20%''))"
    using t_services partial_refs(3) by (simp add: qsa_leaf)
  have b4: "map aims (calls_of (projects partial_page)) = []"
    using t_projects partial_refs(4) by (simp add: qsa_leaf)
  have b5: "map aims (calls_of (contact sample_env partial_page)) = [{}, {}, {}, {}]"
    using t_contact partial_refs(5) by (simp add: qsa_leaf querySelector_leaf target_of_def)
  have b6: "map aims (calls_of (about partial_page)) =
     [{71, 72, 73, 74, 75, 76},
      {71}, {71}, {72}, {72}, {73}, {73}, {74}, {74}, {75}, {75}, {76}, {76},
      {61}, {64}, {62}, {65}, {63}, {66}]"
    using t_about by (simp add: partial_queries)
  have b7: "map aims (calls_of (service_hover partial_page)) =
     [{11, 14}, {11, 14}, {12, 15}, {12, 15}, {13, 16}, {13, 16}]"
    using t_hover by (simp add: partial_queries target_of_def)
  have j: "calls_of (projects partial_page) = []"
    using b4 by simp
  have i: "\<exists>s. initialize sample_env partial_page fresh = Inr (0, s) \<and>
        length (tweens s) = 14 \<and> length (listeners s) = 18 \<and> observers s = []"
    using t_init partial_counts [of sample_env] by (simp add: fresh_def)
  show ?thesis
    using a b1 b2 b3 b4 b5 b6 b7 i t_real t_body by (simp add: h k j)
qed

section \<open>Unmounting\<close>

lemma plain_no_trigger: "plain_to tw \<Longrightarrow> scrollTrigger tw = None"
  by (simp add: plain_to_def)

lemma body_handlers_no_trigger:
  "list_all (\<lambda>l. list_all (\<lambda>tw. scrollTrigger tw = None) (l_handler l))
     (concat (map listening (calls_of (body ev p))))"
proof -
  have "list_all (\<lambda>l. list_all (\<lambda>tw. scrollTrigger tw = None) (l_handler l)) (listening c)"
    if "plain_handlers c" for c
    using that by (auto simp: plain_handlers_def list_all_iff plain_no_trigger)
  then show ?thesis
    using plain_body [of ev p] by (auto simp: list_all_iff)
qed

lemma owned_step: "owned_or_loose c s \<Longrightarrow> owned_or_loose c (step x s)"
proof (cases x)
  case (Dispatch e name)
  assume "owned_or_loose c s"
  then show ?thesis
    by (auto simp: Dispatch owned_or_loose_def dispatch_eq list_all_iff started_def)
next
  case (ScrollEnter e)
  assume "owned_or_loose c s"
  then show ?thesis
    by (auto simp: ScrollEnter owned_or_loose_def scroll_enter_eq list_all_iff started_def)
next
  case (Tick dt)
  assume "owned_or_loose c s"
  then show ?thesis
    by (simp add: Tick owned_or_loose_def)
qed

lemma owned_steps: "owned_or_loose c s \<Longrightarrow> owned_or_loose c (steps evs s)"
  unfolding steps_def by (induction evs arbitrary: s) (simp_all add: owned_step)

lemma owned_initialize:
  assumes "released s" and "initialize ev p s = Inr (c, s')"
  shows "owned_or_loose c s'"
  using assms body_handlers_no_trigger [of ev p]
  by (auto simp: initialize_eq owned_or_loose_def released_def list_all_iff started_def)

lemma released_teardown: "owned_or_loose c s \<Longrightarrow> released (teardown c s)"
  by (auto simp: owned_or_loose_def released_def teardown_def revert_def list_all_iff
    filter_empty_conv)

lemma released_quiet:
  assumes "released s"
  shows "observers s = []" and "active_observers s = 0" and "scroll_enter e s = s"
proof -
  show o: "observers s = []"
    using assms by (simp add: released_def)
  have "filter (\<lambda>e. scrollTrigger (the_tween e) \<noteq> None) (tweens s) = []"
    using assms by (auto simp: released_def list_all_iff filter_empty_conv)
  then show "active_observers s = 0"
    by (simp add: active_observers_def o)
  show "scroll_enter e s = s"
    by (simp add: scroll_enter_eq o)
qed

lemma teardown_after_initialize:
  assumes "released s" and "initialize ev p s = Inr (c, s')"
  shows "tweens (teardown c s') = tweens s" and "observers (teardown c s') = observers s"
proof -
  have "filter (\<lambda>e. owner e \<noteq> Some c) (tweens s) = tweens s"
    using assms(1) by (auto simp: released_def list_all_iff filter_id_conv)
  then show "tweens (teardown c s') = tweens s"
    using assms(2) by (auto simp: initialize_eq teardown_def revert_def started_def)
  show "observers (teardown c s') = observers s"
    using assms by (auto simp: initialize_eq teardown_def revert_def released_def)
qed

lemma mount_eq:
  "mount ev p s =
     s\<lparr>next_ctx := Suc (next_ctx s),
       tweens := tweens s @
         map (started (Some (next_ctx s)) s) (concat (map animation (calls_of (body ev p)))),
       observers := observers s @
         map (Pair (Some (next_ctx s))) (concat (map standalone (calls_of (body ev p)))),
       listeners := listeners s @ concat (map listening (calls_of (body ev p)))\<rparr>"
  by (simp add: mount_def initialize_eq)

lemma initialize_mount: "initialize ev p s = Inr (next_ctx s, mount ev p s)"
  by (simp add: mount_eq initialize_eq)

lemma mount_unmount_eq: "mount_unmount ev p s = teardown (next_ctx s) (mount ev p s)"
  by (simp add: mount_unmount_def initialize_mount)

lemma released_fresh: "released fresh"
  by (simp add: released_def fresh_def)

lemma mount_lengths:
  "length (tweens (mount ev p s)) =
     length (tweens s) + length (concat (map animation (calls_of (body ev p))))"
  "length (observers (mount ev p s)) =
     length (observers s) + length (concat (map standalone (calls_of (body ev p))))"
  "listeners (mount ev p s) = listeners s @ concat (map listening (calls_of (body ev p)))"
  by (simp_all add: mount_eq)

lemma unmount_restores:
  assumes "released s"
  shows "tweens (mount_unmount ev p s) = tweens s"
    and "observers (mount_unmount ev p s) = observers s"
  unfolding mount_unmount_eq
  using teardown_after_initialize [OF assms initialize_mount] by simp_all

text \<open>
  Claim C1, as stated, fails: after the rendered page is mounted and unmounted, the 56
  listeners that the body added are still on their elements, and a \<open>mouseenter\<close> at the
  first technology badge (element 31) still runs its handler and starts a tween.
\<close>

theorem listeners_outlive_teardown:
  "length (listeners (mount_unmount sample_env portfolio_page fresh)) = 56 \<and>
   map (\<lambda>e. (owner e, the_tween e))
     (tweens (dispatch 31 ''mouseenter'' (mount_unmount sample_env portfolio_page fresh))) =
     [(None, badge_enter (Node 31 ''div'' [''tech-badge''] [] []))]"
proof -
  let ?s = "mount_unmount sample_env portfolio_page fresh"
  have l: "listeners ?s = concat (map listening (calls_of (body sample_env portfolio_page)))"
    by (simp add: mount_unmount_eq teardown_def revert_def mount_lengths fresh_def)
  have t: "tweens ?s = []"
    using unmount_restores(1) [OF released_fresh] by (simp add: fresh_def)
  have a: "length (listeners ?s) = 56"
    unfolding l portfolio_listeners by simp
  have b: "concat (map l_handler
             (filter (\<lambda>l. l_target l = 31 \<and> l_event l = ''mouseenter'') (listeners ?s))) =
           [badge_enter (Node 31 ''div'' [''tech-badge''] [] [])]"
    unfolding l portfolio_listeners by simp
  show ?thesis
    using a by (simp add: dispatch_eq t b started_def)
qed

text \<open>
  Claim C1, amended. Start from an engine in which no context owns anything (a fresh
  one, or one left by earlier mounts and unmounts), mount the page, let any events
  happen, and unmount. Then again no context owns anything: the engine holds no
  standalone trigger, no tween with a scroll trigger and no tween that the mount
  created, so the number of viewport observers is zero and no scroll position starts
  anything; had nothing happened in between, the tweens are those from before the mount.
  The listeners are not touched by the teardown: they are those from before the mount
  and those the body added.
\<close>

theorem teardown_releases_rules_and_observers:
  assumes "released s" and "initialize ev p s = Inr (c, s')"
  shows "released (teardown c (steps evs s')) \<and>
         observers (teardown c (steps evs s')) = [] \<and>
         active_observers (teardown c (steps evs s')) = 0 \<and>
         scroll_enter e (teardown c (steps evs s')) = teardown c (steps evs s') \<and>
         tweens (teardown c s') = tweens s \<and>
         listeners (teardown c (steps evs s')) =
           listeners s @ concat (map listening (calls_of (body ev p)))"
proof -
  have "owned_or_loose c (steps evs s')"
    using assms by (intro owned_steps owned_initialize)
  then have r: "released (teardown c (steps evs s'))"
    by (rule released_teardown)
  have l: "listeners (teardown c (steps evs s')) =
           listeners s @ concat (map listening (calls_of (body ev p)))"
    using assms(2) by (auto simp: teardown_def revert_def steps_keeps initialize_eq)
  show ?thesis
    using released_quiet [OF r] r l teardown_after_initialize(1) [OF assms] by simp
qed

text \<open>
  The rendered page, mounted on a fresh engine, with a hover, a tenth of a second and a
  scroll into the technologies section before the unmount.
\<close>

theorem teardown_releases_rules_and_observers_witness:
  "released fresh \<and>
   initialize sample_env portfolio_page fresh =
     Inr (0, mount sample_env portfolio_page fresh) \<and>
   released (teardown 0 (steps [Dispatch 31 ''mouseenter'', Tick 100, ScrollEnter 30]
     (mount sample_env portfolio_page fresh))) \<and>
   active_observers (teardown 0
     (steps [Dispatch 31 ''mouseenter'', Tick 100, ScrollEnter 30]
       (mount sample_env portfolio_page fresh))) = 0 \<and>
   tweens (teardown 0 (mount sample_env portfolio_page fresh)) = []"
proof -
  have i: "initialize sample_env portfolio_page fresh =
     Inr (0, mount sample_env portfolio_page fresh)"
    using initialize_mount [of sample_env portfolio_page fresh] by (simp add: fresh_def)
  from teardown_releases_rules_and_observers [OF released_fresh i,
      of "[Dispatch 31 ''mouseenter'', Tick 100, ScrollEnter 30]"]
  show ?thesis
    using i released_fresh by (simp add: fresh_def)
qed

section \<open>Running initialize twice\<close>

text \<open>
  Claim C6, as stated, fails: on the rendered page a second pass without a teardown
  leaves 112 listeners, 88 tweens and 2 standalone triggers where one pass leaves 56,
  44 and 1.
\<close>

theorem second_pass_registers_again:
  "length (listeners (mount sample_env portfolio_page fresh)) = 56 \<and>
   length (listeners (mount sample_env portfolio_page
     (mount sample_env portfolio_page fresh))) = 112 \<and>
   length (tweens (mount sample_env portfolio_page fresh)) = 44 \<and>
   length (tweens (mount sample_env portfolio_page
     (mount sample_env portfolio_page fresh))) = 88 \<and>
   length (observers (mount sample_env portfolio_page fresh)) = 1 \<and>
   length (observers (mount sample_env portfolio_page
     (mount sample_env portfolio_page fresh))) = 2"
  using portfolio_counts [of sample_env]
  by (simp add: mount_lengths portfolio_listeners fresh_def)

text \<open>
  Claim C6, amended. The pass has no check for an earlier registration: each pass adds
  all tweens, standalone triggers and listeners of the body, so two passes without a
  teardown hold every one of them twice. When a teardown comes between two passes (as it
  does between two runs of the effect), the second pass leaves as many tweens and
  standalone triggers as a single pass.
\<close>

theorem initialize_registers_again:
  "length (tweens (mount ev p s)) =
     length (tweens s) + length (concat (map animation (calls_of (body ev p)))) \<and>
   length (tweens (mount ev p (mount ev p s))) =
     length (tweens s) + 2 * length (concat (map animation (calls_of (body ev p)))) \<and>
   length (observers (mount ev p s)) =
     length (observers s) + length (concat (map standalone (calls_of (body ev p)))) \<and>
   length (observers (mount ev p (mount ev p s))) =
     length (observers s) + 2 * length (concat (map standalone (calls_of (body ev p)))) \<and>
   listeners (mount ev p s) =
     listeners s @ concat (map listening (calls_of (body ev p))) \<and>
   listeners (mount ev p (mount ev p s)) =
     listeners s @ concat (map listening (calls_of (body ev p))) @
       concat (map listening (calls_of (body ev p))) \<and>
   (released s \<longrightarrow>
      length (tweens (mount ev p (mount_unmount ev p s))) = length (tweens (mount ev p s)) \<and>
      length (observers (mount ev p (mount_unmount ev p s))) =
        length (observers (mount ev p s)))"
  by (simp add: mount_lengths unmount_restores)

text \<open>The rendered page on a fresh engine.\<close>

theorem initialize_registers_again_witness:
  "released fresh \<and>
   length (tweens (mount sample_env portfolio_page
     (mount_unmount sample_env portfolio_page fresh))) =
     length (tweens (mount sample_env portfolio_page fresh)) \<and>
   length (observers (mount sample_env portfolio_page
     (mount_unmount sample_env portfolio_page fresh))) =
     length (observers (mount sample_env portfolio_page fresh)) \<and>
   listeners (mount sample_env portfolio_page (mount sample_env portfolio_page fresh)) =
     concat (map listening (calls_of (body sample_env portfolio_page))) @
       concat (map listening (calls_of (body sample_env portfolio_page)))"
  using initialize_registers_again [of sample_env portfolio_page fresh] released_fresh
  by (simp add: fresh_def)

section \<open>A leave that arrives before the enter has finished\<close>

lemma started_fields [simp]:
  "owner (started c s tw) = c"
  "born (started c s tw) = now s"
  "the_tween (started c s tw) = tw"
  by (simp_all add: started_def)





section \<open>Viewport triggers\<close>

lemma reversible_play_reverse:
  assumes "scrollTrigger tw = Some st"
    and "toggleActions st = (Play, NoAction, NoAction, Reverse)"
  shows "reversible tw"
    and "on_scroll tw Leave ph = ph"
    and "on_scroll tw EnterBack ph = ph"
    and "shown tw (advance 1 (on_scroll tw Enter idle)) = Some (to_vars tw)"
    and "shown tw (advance 1 (on_scroll tw LeaveBack (advance 1 (on_scroll tw Enter idle)))) =
           Some (from_vars tw)"
  using assms
  by (simp_all add: reversible_def on_scroll_def act_def advance_def idle_def shown_def)

text \<open>
  Claim C4, as stated, fails for one viewport rule. On the rendered page the body makes
  the standalone trigger of the technologies section (start \<open>top 60%\<close>). It starts the
  wave over the badges when the section is entered, and it does nothing when the
  section is left backwards.
\<close>

theorem wave_trigger_only_enters:
  "Observe \<lparr>o_trigger = Some 30, o_start = ''top 60%'',
     o_onEnter = [wave (querySelectorAll tech_section (ByClass ''tech-badge''))]\<rparr>
     \<in> set (calls_of (body sample_env portfolio_page)) \<and>
   callback \<lparr>o_trigger = Some 30, o_start = ''top 60%'',
     o_onEnter = [wave (querySelectorAll tech_section (ByClass ''tech-badge''))]\<rparr> LeaveBack
     = [] \<and>
   callback \<lparr>o_trigger = Some 30, o_start = ''top 60%'',
     o_onEnter = [wave (querySelectorAll tech_section (ByClass ''tech-badge''))]\<rparr> Enter
     = [wave (querySelectorAll tech_section (ByClass ''tech-badge''))]"
proof -
  have "techRef portfolio_page = Some tech_section"
    by (simp add: portfolio_page_def)
  then have "Observe \<lparr>o_trigger = Some 30, o_start = ''top 60%'',
     o_onEnter = [wave (querySelectorAll tech_section (ByClass ''tech-badge''))]\<rparr>
     \<in> set (calls_of (tech sample_env portfolio_page))"
    by (simp add: tech_def querySelectorAll_on_def for_each_ok ok_bodies andthen_ok
      tech_section_def)
  then show ?thesis
    by (simp add: body_eq callback_def)
qed

text \<open>
  Claim C4, amended. Every tween of the body that carries a scroll trigger is a
  \<open>fromTo\<close> with the actions play, none, none, reverse. Such a tween is reversible:
  entered, it plays from its start state to its end state; left backwards, it plays
  back from its end state to its start state; leaving forwards and entering backwards
  do not move it. The standalone triggers do nothing when left or entered backwards.
\<close>

theorem scroll_triggered_tweens_play_and_reverse:
  "list_all plays_and_reverses (calls_of (body ev p)) \<and>
   (\<forall>tw st ph. scrollTrigger tw = Some st \<and>
        toggleActions st = (Play, NoAction, NoAction, Reverse) \<longrightarrow>
      reversible tw \<and> on_scroll tw Leave ph = ph \<and> on_scroll tw EnterBack ph = ph \<and>
      shown tw (advance 1 (on_scroll tw Enter idle)) = Some (to_vars tw) \<and>
      shown tw (advance 1 (on_scroll tw LeaveBack (advance 1 (on_scroll tw Enter idle)))) =
        Some (from_vars tw)) \<and>
   list_all (\<lambda>ob. callback ob LeaveBack = [] \<and> callback ob EnterBack = [] \<and>
       callback ob Leave = [])
     (concat (map standalone (calls_of (body ev p))))"
  using reverse_body [of ev p] reversible_play_reverse
  by (simp add: callback_def list_all_iff)

text \<open>
  The entrance of the first project card: settled, then left backwards, it is back at
  opacity 0, \<open>x = -100\<close>, rotation \<open>-5\<close>.
\<close>

theorem scroll_triggered_tweens_play_and_reverse_witness:
  "reversible (hd (concat (map tweens_of (calls_of (project_card
      (0, Node 21 ''div'' [''project-card''] [] [])))))) \<and>
   shown (hd (concat (map tweens_of (calls_of (project_card
      (0, Node 21 ''div'' [''project-card''] [] []))))))
     (advance 1 (on_scroll (hd (concat (map tweens_of (calls_of (project_card
      (0, Node 21 ''div'' [''project-card''] [] [])))))) LeaveBack
       \<lparr>progress = 1, direction = Play\<rparr>)) =
     Some [(''opacity'', Num 0), (''x'', Num (- 100)), (''rotation'', Num (- 5))]"
proof -
  let ?tw = "hd (concat (map tweens_of (calls_of (project_card
      (0, Node 21 ''div'' [''project-card''] [] [])))))"
  have s: "scrollTrigger ?tw = Some (play_reverse (Some 21) ''top 85%'' None)"
    by (simp add: project_card_def gsap_fromTo_def gsap_to_def)
  have t: "toggleActions (play_reverse (Some 21) ''top 85%'' None) =
        (Play, NoAction, NoAction, Reverse)"
    by (simp add: play_reverse_def)
  have e: "advance 1 (on_scroll ?tw Enter idle) = \<lparr>progress = 1, direction = Play\<rparr>"
    by (simp add: s t on_scroll_def act_def advance_def idle_def)
  have f: "from_vars ?tw = [(''opacity'', Num 0), (''x'', Num (- 100)), (''rotation'', Num (- 5))]"
    by (simp add: project_card_def gsap_fromTo_def gsap_to_def)
  from scroll_triggered_tweens_play_and_reverse [of sample_env portfolio_page] s t
  have "reversible ?tw \<and>
      shown ?tw (advance 1 (on_scroll ?tw LeaveBack (advance 1 (on_scroll ?tw Enter idle)))) =
        Some (from_vars ?tw)"
    by blast
  then show ?thesis
    by (simp add: e f)
qed

section \<open>Stagger\<close>

lemma scaled_unit:
  assumes "i < length ds"
  shows "0 \<le> scaled ds i \<and> scaled ds i \<le> 1"
proof (cases "Max (set ds) = Min (set ds)")
  case True
  then show ?thesis by (simp add: scaled_def)
next
  case False
  have m: "ds ! i \<in> set ds" using assms by simp
  have lo: "Min (set ds) \<le> ds ! i" using m by simp
  have hi: "ds ! i \<le> Max (set ds)" using m by simp
  have "Min (set ds) \<le> Max (set ds)" using lo hi by linarith
  with False have pos: "0 < Max (set ds) - Min (set ds)" by simp
  have a: "0 \<le> (ds ! i - Min (set ds)) / (Max (set ds) - Min (set ds))"
    using lo pos by simp
  have b: "(ds ! i - Min (set ds)) / (Max (set ds) - Min (set ds)) \<le> 1"
    using hi pos by simp
  show ?thesis
    using False a b by (simp add: scaled_def)
qed

lemma each_offset: "i < n \<Longrightarrow> start_offsets dtab ez (Each d) n ! i = d * real i"
  by (simp add: start_offsets_def)

lemma amount_offset:
  assumes "full_table dtab" and "unit_ease ez" and "0 \<le> a" and "i < n"
  shows "0 \<le> start_offsets dtab ez (Amount a pat grid e) n ! i \<and>
         start_offsets dtab ez (Amount a pat grid e) n ! i \<le> a"
proof -
  have len: "i < length (dtab pat grid n)"
    using assms(1,4) by (simp add: full_table_def)
  note u = scaled_unit [OF len]
  define r where "r = (case e of None \<Rightarrow> scaled (dtab pat grid n) i
                               | Some name \<Rightarrow> ez name (scaled (dtab pat grid n) i))"
  have r: "0 \<le> r \<and> r \<le> 1"
    using u assms(2) by (cases e) (simp_all add: r_def unit_ease_def)
  have o: "start_offsets dtab ez (Amount a pat grid e) n ! i = a * r"
    using assms(4) by (cases e) (simp_all add: start_offsets_def r_def)
  have "a * r \<le> a * 1"
    using r assms(3) by (intro mult_left_mono) simp_all
  then show ?thesis
    using r assms(3) by (simp add: o)
qed

lemma length_offsets: "length (start_offsets dtab ez st n) = n"
  by (cases st) (simp_all add: start_offsets_def)

lemma amount_spread:
  assumes "full_table dtab" and "unit_ease ez" and "0 \<le> a"
  shows "spread (start_offsets dtab ez (Amount a pat grid e) n) \<le> a"
proof (cases "n = 0")
  case True
  then show ?thesis
    using assms(3) by (simp add: spread_def start_offsets_def)
next
  case False
  let ?o = "start_offsets dtab ez (Amount a pat grid e) n"
  have ne: "?o \<noteq> []"
    using False length_offsets [of dtab ez "Amount a pat grid e" n] by auto
  have bounds: "0 \<le> x \<and> x \<le> a" if "x \<in> set ?o" for x
  proof -
    from that obtain i where "i < length ?o" and "x = ?o ! i"
      by (auto simp: in_set_conv_nth)
    then show ?thesis
      using amount_offset [OF assms, of i n pat grid e] by (simp add: length_offsets)
  qed
  have "Max (set ?o) \<in> set ?o" and "Min (set ?o) \<in> set ?o"
    using ne by simp_all
  then have "Max (set ?o) \<le> a" and "0 \<le> Min (set ?o)"
    using bounds by blast+
  then have "Max (set ?o) - Min (set ?o) \<le> a"
    by linarith
  then show ?thesis
    using ne by (simp only: spread_def if_False)
qed

lemma each_spread:
  assumes "0 \<le> d"
  shows "spread (start_offsets dtab ez (Each d) n) = d * real (n - 1)"
proof (cases n)
  case 0
  then show ?thesis by (simp add: spread_def start_offsets_def)
next
  case (Suc m)
  let ?S = "(\<lambda>i. d * real i) ` {0..<Suc m}"
  have mx: "Max ?S = d * real m"
  proof (rule Max_eqI)
    show "finite ?S" by simp
    show "y \<le> d * real m" if "y \<in> ?S" for y
      using that assms by (auto intro!: mult_left_mono)
    show "d * real m \<in> ?S" by auto
  qed
  have mn: "Min ?S = 0"
  proof (rule Min_eqI)
    show "finite ?S" by simp
    show "0 \<le> y" if "y \<in> ?S" for y
      using that assms by auto
    show "0 \<in> ?S" by force
  qed
  have "set (start_offsets dtab ez (Each d) (Suc m)) = ?S"
    unfolding start_offsets_def by (simp only: stagger.case set_map set_upt)
  moreover have "start_offsets dtab ez (Each d) (Suc m) \<noteq> []"
    by (simp add: start_offsets_def)
  ultimately show ?thesis
    using mx mn by (simp add: spread_def Suc)
qed

text \<open>
  Claim C5, as stated, fails for the rules whose stagger is a number. The entrance of the
  three service cards has \<open>stagger: 0.2\<close>: the cards start at 0, 0.2 and 0.4 seconds,
  0.4 seconds from first to last; with eleven cards it would be 2 seconds. The time
  grows with the number of targets.
\<close>

theorem numeric_stagger_is_per_item:
  "map stagger (concat (map tweens_of (calls_of (services portfolio_page)))) =
     [Some (Each (1 / 5))] \<and>
   map (\<lambda>tw. length (targets tw)) (concat (map tweens_of (calls_of (services portfolio_page))))
     = [3] \<and>
   start_offsets linear_dist cubic_out (Each (1 / 5)) 3 = [0, 1 / 5, 2 / 5] \<and>
   spread (start_offsets linear_dist cubic_out (Each (1 / 5)) 3) = 2 / 5 \<and>
   spread (start_offsets linear_dist cubic_out (Each (1 / 5)) 11) = 2"
proof -
  have a: "start_offsets linear_dist cubic_out (Each (1 / 5)) 3 = [0, 1 / 5, 2 / 5]"
    by (simp add: start_offsets_def upt_conv_Cons numeral_3_eq_3)
  have b: "map stagger (concat (map tweens_of (calls_of (services portfolio_page)))) =
     [Some (Each (1 / 5))] \<and>
     map (\<lambda>tw. length (targets tw))
       (concat (map tweens_of (calls_of (services portfolio_page)))) = [3]"
    by (simp add: services_def portfolio_page_def querySelectorAll_on_def
      querySelectorAll_def services_section_def gsap_fromTo_def gsap_to_def)
  show ?thesis
    using b by (simp add: each_spread) (simp add: a)
qed

text \<open>
  Claim C5, amended. The stagger options of the body are those the source writes:
  none, the numbers 0.2 and 0.1, and three amounts.
  With a number \<open>d\<close> the target at index \<open>i\<close> starts at \<open>d * i\<close>, so the time from the
  first start to the last is \<open>d * (n - 1)\<close>. With an amount \<open>a\<close> (whatever pattern,
  grid and ease, provided the table of distances covers all targets and the ease keeps
  the range from 0 to 1) every start offset lies between 0 and \<open>a\<close>, so the time from
  the first start to the last is at most \<open>a\<close>, for every number of targets.
\<close>

theorem stagger_amount_is_split_number_is_per_item:
  "list_all staggers_as_written (calls_of (body ev p)) \<and>
   (\<forall>d n i. i < n \<longrightarrow> start_offsets dtab ez (Each d) n ! i = d * real i) \<and>
   (\<forall>d n. 0 \<le> d \<longrightarrow> spread (start_offsets dtab ez (Each d) n) = d * real (n - 1)) \<and>
   (\<forall>a pat grid e n i. full_table dtab \<and> unit_ease ez \<and> 0 \<le> a \<and> i < n \<longrightarrow>
      0 \<le> start_offsets dtab ez (Amount a pat grid e) n ! i \<and>
      start_offsets dtab ez (Amount a pat grid e) n ! i \<le> a) \<and>
   (\<forall>a pat grid e n. full_table dtab \<and> unit_ease ez \<and> 0 \<le> a \<longrightarrow>
      spread (start_offsets dtab ez (Amount a pat grid e) n) \<le> a)"
proof (intro conjI allI impI)
  show "list_all staggers_as_written (calls_of (body ev p))"
    by (rule stagger_body)
next
  fix d :: real and n i :: nat
  assume "i < n"
  then show "start_offsets dtab ez (Each d) n ! i = d * real i"
    by (rule each_offset)
next
  fix d :: real and n :: nat
  assume "0 \<le> d"
  then show "spread (start_offsets dtab ez (Each d) n) = d * real (n - 1)"
    by (rule each_spread)
next
  fix a :: real and pat grid e and n i :: nat
  assume h: "full_table dtab \<and> unit_ease ez \<and> 0 \<le> a \<and> i < n"
  then have "0 \<le> start_offsets dtab ez (Amount a pat grid e) n ! i \<and>
      start_offsets dtab ez (Amount a pat grid e) n ! i \<le> a"
    by (intro amount_offset) simp_all
  then show "0 \<le> start_offsets dtab ez (Amount a pat grid e) n ! i"
    and "start_offsets dtab ez (Amount a pat grid e) n ! i \<le> a"
    by simp_all
next
  fix a :: real and pat grid e and n :: nat
  assume "full_table dtab \<and> unit_ease ez \<and> 0 \<le> a"
  then show "spread (start_offsets dtab ez (Amount a pat grid e) n) \<le> a"
    by (intro amount_spread) simp_all
qed

lemma sample_tables: "full_table linear_dist" "unit_ease cubic_out"
proof -
  show "full_table linear_dist"
    by (simp add: full_table_def linear_dist_def)
  have "0 \<le> 1 - (1 - r) ^ 3 \<and> 1 - (1 - r) ^ 3 \<le> 1" if "0 \<le> r" and "r \<le> 1" for r :: real
  proof -
    have "0 \<le> 1 - r" and "1 - r \<le> 1" using that by simp_all
    then have "(1 - r) ^ 3 \<le> 1 ^ 3" and "0 \<le> (1 - r) ^ 3"
      by (intro power_mono zero_le_power; simp)+
    then show ?thesis by simp
  qed
  then show "unit_ease cubic_out"
    by (simp add: unit_ease_def cubic_out_def)
qed

text \<open>
  With the sample tables an amount of 0.8 over three targets gives the offsets 0, 0.4
  and 0.8, and stays within 0.8 for a hundred targets; a number 0.1 over four targets
  puts the last start at 0.3.
\<close>

theorem stagger_amount_is_split_number_is_per_item_witness:
  "full_table linear_dist \<and> unit_ease cubic_out \<and>
   start_offsets linear_dist cubic_out (Amount (4 / 5) FromStart None None) 3 =
     [0, 2 / 5, 4 / 5] \<and>
   spread (start_offsets linear_dist cubic_out (Amount (4 / 5) FromStart None None) 3) \<le> 4 / 5 \<and>
   spread (start_offsets linear_dist cubic_out (Amount (4 / 5) FromStart None None) 100) \<le> 4 / 5 \<and>
   start_offsets linear_dist cubic_out (Each (1 / 10)) 4 ! 3 = 3 / 10 \<and>
   spread (start_offsets linear_dist cubic_out (Each (1 / 10)) 4) = 3 / 10"
proof -
  have s: "Max {0::real, 1, 2} = 2" "Min {0::real, 1, 2} = 0" by simp_all
  have a: "start_offsets linear_dist cubic_out (Amount (4 / 5) FromStart None None) 3 =
     [0, 2 / 5, 4 / 5]"
    by (simp add: start_offsets_def linear_dist_def scaled_def upt_conv_Cons numeral_3_eq_3)
  note t = stagger_amount_is_split_number_is_per_item
    [of sample_env portfolio_page linear_dist cubic_out]
  have g: "full_table linear_dist \<and> unit_ease cubic_out \<and> (0::real) \<le> 4 / 5"
    using sample_tables by simp
  have b: "spread (start_offsets linear_dist cubic_out (Amount (4 / 5) FromStart None None) n)
      \<le> 4 / 5" for n
    using t g by blast
  have "(3::nat) < 4" by simp
  with t have "start_offsets linear_dist cubic_out (Each (1 / 10)) 4 ! 3 = (1 / 10) * real (3::nat)"
    by blast
  then have c: "start_offsets linear_dist cubic_out (Each (1 / 10)) 4 ! 3 = 3 / 10"
    by simp
  have "(0::real) \<le> 1 / 10" by simp
  with t have "spread (start_offsets linear_dist cubic_out (Each (1 / 10)) 4) =
      (1 / 10) * real ((4::nat) - 1)"
    by blast
  then have d: "spread (start_offsets linear_dist cubic_out (Each (1 / 10)) 4) = 3 / 10"
    by simp
  show ?thesis
    using a b [of 3] b [of 100] c d sample_tables by simp
qed

section \<open>Ambient motion\<close>

lemma enumerate_nth: "i < length xs \<Longrightarrow> (i, xs ! i) \<in> set (enumerate 0 xs)"
  by (simp add: in_set_enumerate_eq)

lemma badge_breathing_called:
  assumes "techRef p = Some r" and "i < length (querySelectorAll r (ByClass ''tech-badge''))"
  shows "Animate ((gsap_to [nid (querySelectorAll r (ByClass ''tech-badge'') ! i)]
             [(''scale'', Num 1.02)])
            \<lparr>duration := 2 + random_badge ev i * 1, repeat := - 1, yoyo := True,
             ease := Some ''sine.inOut'', delay := real i * 0.1\<rparr>)
         \<in> set (calls_of (body ev p))"
proof -
  let ?bs = "querySelectorAll r (ByClass ''tech-badge'')"
  let ?c = "Animate ((gsap_to [nid (?bs ! i)] [(''scale'', Num 1.02)])
            \<lparr>duration := 2 + random_badge ev i * 1, repeat := - 1, yoyo := True,
             ease := Some ''sine.inOut'', delay := real i * 0.1\<rparr>)"
  have "?c \<in> set (calls_of (tech_badge ev (i, ?bs ! i)))"
    by (simp add: tech_badge_def)
  moreover have "(i, ?bs ! i) \<in> set (enumerate 0 ?bs)"
    using assms(2) by (rule enumerate_nth)
  ultimately have "?c \<in> set (concat (map (\<lambda>x. calls_of (tech_badge ev x)) (enumerate 0 ?bs)))"
    unfolding set_concat by (intro UN_I [of "calls_of (tech_badge ev (i, ?bs ! i))"]) auto
  then have "?c \<in> set (calls_of (tech ev p))"
    using assms(1)
    by (simp add: tech_def querySelectorAll_on_def for_each_ok ok_bodies andthen_ok)
  then show ?thesis
    by (simp add: body_eq)
qed

lemma social_sway_called:
  assumes "contactRef p = Some r" and "i < length (querySelectorAll r (ByClass ''social-btn''))"
  shows "Animate ((gsap_to [nid (querySelectorAll r (ByClass ''social-btn'') ! i)]
              [(''rotationY'', Num (sin (real i) * 5)),
               (''rotationX'', Num (cos (real i) * 3))])
            \<lparr>duration := 3 + random_social ev i, repeat := - 1, yoyo := True,
             ease := Some ''sine.inOut'', delay := real i * 0.2\<rparr>)
         \<in> set (calls_of (body ev p))"
proof -
  let ?bs = "querySelectorAll r (ByClass ''social-btn'')"
  let ?c = "Animate ((gsap_to [nid (?bs ! i)]
              [(''rotationY'', Num (sin (real i) * 5)),
               (''rotationX'', Num (cos (real i) * 3))])
            \<lparr>duration := 3 + random_social ev i, repeat := - 1, yoyo := True,
             ease := Some ''sine.inOut'', delay := real i * 0.2\<rparr>)"
  have "?c \<in> set (calls_of (social_button ev (i, ?bs ! i)))"
    by (simp add: social_button_def)
  moreover have "(i, ?bs ! i) \<in> set (enumerate 0 ?bs)"
    using assms(2) by (rule enumerate_nth)
  ultimately have "?c \<in> set (concat (map (\<lambda>x. calls_of (social_button ev x)) (enumerate 0 ?bs)))"
    unfolding set_concat by (intro UN_I [of "calls_of (social_button ev (i, ?bs ! i))"]) auto
  then have "?c \<in> set (calls_of (contact ev p))"
    using assms(1)
    by (simp add: contact_def querySelectorAll_on_def querySelector_on_def for_each_ok
      ok_bodies andthen_ok)
  then show ?thesis
    by (simp add: body_eq)
qed

lemma now_step: "now s \<le> now (step x s)"
  by (cases x) (simp_all add: dispatch_eq scroll_enter_eq)

lemma now_steps: "now s \<le> now (steps evs s)"
  unfolding steps_def
proof (induction evs arbitrary: s)
  case Nil
  show ?case by simp
next
  case (Cons x evs)
  have "now s \<le> now (step x s)" by (rule now_step)
  also have "\<dots> \<le> now (fold step evs (step x s))" by (rule Cons)
  finally show ?case by simp
qed

lemma animated_runs:
  assumes "initialize ev p s = Inr (c, s')"
    and "Animate tw \<in> set (calls_of (body ev p))"
    and "repeat tw < 0"
  shows "started (Some c) s tw \<in> set (tweens s')"
    and "runs_until_teardown c s' (started (Some c) s tw)"
proof -
  have "tw \<in> set (concat (map animation (calls_of (body ev p))))"
    using assms(2) by (auto intro!: bexI [of _ "Animate tw"])
  then have "started (Some c) s tw \<in>
      started (Some c) s ` set (concat (map animation (calls_of (body ev p))))"
    by (rule imageI)
  moreover have "tweens s' = tweens s @
      map (started (Some c) s) (concat (map animation (calls_of (body ev p))))"
    using assms(1) by (auto simp: initialize_eq)
  ultimately show m: "started (Some c) s tw \<in> set (tweens s')"
    by simp
  show "runs_until_teardown c s' (started (Some c) s tw)"
    unfolding runs_until_teardown_def
  proof (intro allI conjI)
    fix evs
    obtain new where "tweens (steps evs s') = tweens s' @ new"
      using steps_appends by blast
    then show "started (Some c) s tw \<in> set (tweens (steps evs s'))"
      using m by simp
    have "now s' = now s"
      using assms(1) by (auto simp: initialize_eq)
    then show "in_flight (started (Some c) s tw) (now (steps evs s'))"
      using assms(3) now_steps [of s' evs] by (simp add: in_flight_def run_time_def)
    show "started (Some c) s tw \<notin> set (tweens (teardown c (steps evs s')))"
      by (simp add: teardown_def revert_def)
  qed
qed

text \<open>
  Claim C8. When the page has been mounted, the engine holds, for every technology
  badge and for every social button, a tween of that element alone that the mount's
  context owns and that was created at the time of the mount: a \<open>gsap.to\<close> towards
  scale 1.02 for a badge, towards the rotations \<open>sin i * 5\<close> and \<open>cos i * 3\<close> for the
  button at index \<open>i\<close> (the motion of the element at index \<open>i\<close> begins after a delay
  of \<open>i\<close> times 0.1, or 0.2, seconds). It repeats for ever, back and forth, and has no
  scroll trigger. Whatever pointer events, scroll positions and time follow, it is still held
  and still in flight, and the teardown of the mount's context removes it.
\<close>

theorem ambient_motion_runs_until_teardown:
  assumes "initialize ev p s = Inr (c, s')"
  shows "(\<forall>r i. techRef p = Some r \<and> i < length (querySelectorAll r (ByClass ''tech-badge''))
           \<longrightarrow> (\<exists>en. en \<in> set (tweens s') \<and> owner en = Some c \<and> born en = now s \<and>
                 targets (the_tween en) = [nid (querySelectorAll r (ByClass ''tech-badge'') ! i)] \<and>
                 to_vars (the_tween en) = [(''scale'', Num 1.02)] \<and>
                 delay (the_tween en) = real i * 0.1 \<and>
                 ambient (the_tween en) \<and> runs_until_teardown c s' en)) \<and>
         (\<forall>r i. contactRef p = Some r \<and> i < length (querySelectorAll r (ByClass ''social-btn''))
           \<longrightarrow> (\<exists>en. en \<in> set (tweens s') \<and> owner en = Some c \<and> born en = now s \<and>
                 targets (the_tween en) = [nid (querySelectorAll r (ByClass ''social-btn'') ! i)] \<and>
                 to_vars (the_tween en) = [(''rotationY'', Num (sin (real i) * 5)),
                                           (''rotationX'', Num (cos (real i) * 3))] \<and>
                 delay (the_tween en) = real i * 0.2 \<and>
                 ambient (the_tween en) \<and> runs_until_teardown c s' en))"
proof (intro conjI allI impI)
  fix r i
  assume h: "techRef p = Some r \<and> i < length (querySelectorAll r (ByClass ''tech-badge''))"
  let ?tw = "(gsap_to [nid (querySelectorAll r (ByClass ''tech-badge'') ! i)]
             [(''scale'', Num 1.02)])
            \<lparr>duration := 2 + random_badge ev i * 1, repeat := - 1, yoyo := True,
             ease := Some ''sine.inOut'', delay := real i * 0.1\<rparr>"
  have c: "Animate ?tw \<in> set (calls_of (body ev p))"
    using h by (intro badge_breathing_called) simp_all
  have n: "repeat ?tw < 0" by (simp add: gsap_to_def)
  show "\<exists>en. en \<in> set (tweens s') \<and> owner en = Some c \<and> born en = now s \<and>
                 targets (the_tween en) = [nid (querySelectorAll r (ByClass ''tech-badge'') ! i)] \<and>
                 to_vars (the_tween en) = [(''scale'', Num 1.02)] \<and>
                 delay (the_tween en) = real i * 0.1 \<and>
                 ambient (the_tween en) \<and> runs_until_teardown c s' en"
    using animated_runs [OF assms c n]
    by (intro exI [of _ "started (Some c) s ?tw"])
      (simp add: gsap_to_def ambient_def run_time_def)
next
  fix r i
  assume h: "contactRef p = Some r \<and> i < length (querySelectorAll r (ByClass ''social-btn''))"
  let ?tw = "(gsap_to [nid (querySelectorAll r (ByClass ''social-btn'') ! i)]
              [(''rotationY'', Num (sin (real i) * 5)),
               (''rotationX'', Num (cos (real i) * 3))])
            \<lparr>duration := 3 + random_social ev i, repeat := - 1, yoyo := True,
             ease := Some ''sine.inOut'', delay := real i * 0.2\<rparr>"
  have c: "Animate ?tw \<in> set (calls_of (body ev p))"
    using h by (intro social_sway_called) simp_all
  have n: "repeat ?tw < 0" by (simp add: gsap_to_def)
  show "\<exists>en. en \<in> set (tweens s') \<and> owner en = Some c \<and> born en = now s \<and>
                 targets (the_tween en) = [nid (querySelectorAll r (ByClass ''social-btn'') ! i)] \<and>
                 to_vars (the_tween en) = [(''rotationY'', Num (sin (real i) * 5)),
                                           (''rotationX'', Num (cos (real i) * 3))] \<and>
                 delay (the_tween en) = real i * 0.2 \<and>
                 ambient (the_tween en) \<and> runs_until_teardown c s' en"
    using animated_runs [OF assms c n]
    by (intro exI [of _ "started (Some c) s ?tw"])
      (simp add: gsap_to_def ambient_def run_time_def)
qed

lemma portfolio_badges:
  "map nid (querySelectorAll tech_section (ByClass ''tech-badge'')) =
     [31, 32, 33, 34, 35, 36, 37, 38, 39, 40, 41, 42]"
  by (simp add: querySelectorAll_def tech_section_def)

lemma portfolio_social:
  "map nid (querySelectorAll contact_section (ByClass ''social-btn'')) = [85, 86, 87]"
  by (simp add: querySelectorAll_def contact_section_def)

text \<open>The first badge (element 31) and the second social button (element 86).\<close>

theorem ambient_motion_runs_until_teardown_witness:
  "(\<exists>en. en \<in> set (tweens (mount sample_env portfolio_page fresh)) \<and> owner en = Some 0 \<and>
      targets (the_tween en) = [31] \<and> to_vars (the_tween en) = [(''scale'', Num 1.02)] \<and>
      ambient (the_tween en) \<and>
      runs_until_teardown 0 (mount sample_env portfolio_page fresh) en) \<and>
   (\<exists>en. en \<in> set (tweens (mount sample_env portfolio_page fresh)) \<and> owner en = Some 0 \<and>
      targets (the_tween en) = [86] \<and>
      to_vars (the_tween en) = [(''rotationY'', Num (sin 1 * 5)),
                                (''rotationX'', Num (cos 1 * 3))] \<and>
      ambient (the_tween en) \<and>
      runs_until_teardown 0 (mount sample_env portfolio_page fresh) en)"
proof -
  have i: "initialize sample_env portfolio_page fresh =
     Inr (0, mount sample_env portfolio_page fresh)"
    using initialize_mount [of sample_env portfolio_page fresh] by (simp add: fresh_def)
  note t = ambient_motion_runs_until_teardown [OF i]
  have b: "techRef portfolio_page = Some tech_section \<and>
      0 < length (querySelectorAll tech_section (ByClass ''tech-badge''))"
    using arg_cong [OF portfolio_badges, of length] by (simp add: portfolio_page_def)
  have b': "nid (querySelectorAll tech_section (ByClass ''tech-badge'') ! 0) = 31"
    using arg_cong [OF portfolio_badges, of "\<lambda>xs. xs ! 0"] b by (simp add: nth_map)
  have c: "contactRef portfolio_page = Some contact_section \<and>
      1 < length (querySelectorAll contact_section (ByClass ''social-btn''))"
    using arg_cong [OF portfolio_social, of length] by (simp add: portfolio_page_def)
  have c': "nid (querySelectorAll contact_section (ByClass ''social-btn'') ! 1) = 86"
    using arg_cong [OF portfolio_social, of "\<lambda>xs. xs ! 1"] c by (simp add: nth_map)
  from t b have "\<exists>en. en \<in> set (tweens (mount sample_env portfolio_page fresh)) \<and>
      owner en = Some 0 \<and> born en = now fresh \<and>
      targets (the_tween en) = [nid (querySelectorAll tech_section (ByClass ''tech-badge'') ! 0)] \<and>
      to_vars (the_tween en) = [(''scale'', Num 1.02)] \<and>
      ambient (the_tween en) \<and>
      runs_until_teardown 0 (mount sample_env portfolio_page fresh) en"
    by blast
  then have one: "\<exists>en. en \<in> set (tweens (mount sample_env portfolio_page fresh)) \<and>
      owner en = Some 0 \<and>
      targets (the_tween en) = [31] \<and> to_vars (the_tween en) = [(''scale'', Num 1.02)] \<and>
      ambient (the_tween en) \<and>
      runs_until_teardown 0 (mount sample_env portfolio_page fresh) en"
    unfolding b' by blast
  from t c have "\<exists>en. en \<in> set (tweens (mount sample_env portfolio_page fresh)) \<and>
      owner en = Some 0 \<and> born en = now fresh \<and>
      targets (the_tween en) = [nid (querySelectorAll contact_section (ByClass ''social-btn'') ! 1)] \<and>
      to_vars (the_tween en) = [(''rotationY'', Num (sin (real (1::nat)) * 5)),
                                (''rotationX'', Num (cos (real (1::nat)) * 3))] \<and>
      ambient (the_tween en) \<and>
      runs_until_teardown 0 (mount sample_env portfolio_page fresh) en"
    by blast
  then have two: "\<exists>en. en \<in> set (tweens (mount sample_env portfolio_page fresh)) \<and>
      owner en = Some 0 \<and>
      targets (the_tween en) = [86] \<and>
      to_vars (the_tween en) = [(''rotationY'', Num (sin 1 * 5)),
                                (''rotationX'', Num (cos 1 * 3))] \<and>
      ambient (the_tween en) \<and>
      runs_until_teardown 0 (mount sample_env portfolio_page fresh) en"
    unfolding c' by auto
  show ?thesis
    using one two by blast
qed

section \<open>Enter and leave\<close>




















end
